theory Spec2Isabelle
  imports Main "HOL-Library.Word"
begin

section \<open>JavaScript values\<close>

text \<open>
  A JavaScript string is a sequence of 16-bit code units. String literals of the source
  are ASCII and are written with \<open>ascii\<close>; a template literal is the concatenation of
  its pieces.
\<close>

type_synonym js_string = "16 word list"

definition ascii :: "string \<Rightarrow> js_string" where
  "ascii s = map of_char s"

text \<open>
  The values that JSON and the extension's key-value store can hold, and
  \<open>undefined\<close>. Numbers are the integers; an object is the list of its own
  properties in insertion order.
\<close>

datatype jsval =
    JUndefined
  | JNull
  | JBool bool
  | JNum int
  | JStr js_string
  | JArr "jsval list"
  | JObj "(js_string \<times> jsval) list"

text \<open>What a rejected promise or a \<open>throw\<close> carries.\<close>

datatype error =
    Error js_string         \<comment> \<open>\<open>throw new Error(message)\<close>\<close>
  | FetchFailed             \<comment> \<open>the promise of \<open>fetch\<close> rejects\<close>
  | SyntaxError             \<comment> \<open>\<open>res.json()\<close> rejects: the body is not JSON\<close>
  | TypeError               \<comment> \<open>a property of \<open>undefined\<close> or \<open>null\<close> is read\<close>
  | URIError                \<comment> \<open>\<open>encodeURIComponent\<close> meets a lone surrogate\<close>
  | InvalidCharacterError   \<comment> \<open>\<open>btoa\<close> meets a code unit above 255\<close>
  | StatsError              \<comment> \<open>the promise of \<open>getAndInitializeStats\<close> rejects\<close>

text \<open>The test of \<open>if (!token)\<close>: ToBoolean.\<close>

fun truthy :: "jsval \<Rightarrow> bool" where
  "truthy JUndefined = False"
| "truthy JNull = False"
| "truthy (JBool b) = b"
| "truthy (JNum n) = (n \<noteq> 0)"
| "truthy (JStr s) = (s \<noteq> [])"
| "truthy (JArr xs) = True"
| "truthy (JObj kvs) = True"

text \<open>
  Reading a property \<open>v.k\<close>, for the property names the source reads
  (\<open>leethub_token\<close>, \<open>object\<close>, \<open>tree\<close>, \<open>sha\<close>), none of which a
  prototype defines: \<open>undefined\<close> and \<open>null\<close> throw, an object without the
  property and every other value give \<open>undefined\<close>.
\<close>

fun get_prop :: "jsval \<Rightarrow> js_string \<Rightarrow> error + jsval" where
  "get_prop JUndefined k = Inl TypeError"
| "get_prop JNull k = Inl TypeError"
| "get_prop (JObj kvs) k = Inr (case map_of kvs k of None \<Rightarrow> JUndefined | Some v \<Rightarrow> v)"
| "get_prop v k = Inr JUndefined"

text \<open>The assignment \<open>o.k = v\<close> on an object: an own property keeps its place.\<close>

fun set_prop :: "(js_string \<times> jsval) list \<Rightarrow> js_string \<Rightarrow> jsval \<Rightarrow> (js_string \<times> jsval) list" where
  "set_prop [] k v = [(k, v)]"
| "set_prop ((k', v') # kvs) k v = (if k' = k then (k, v) # kvs else (k', v') # set_prop kvs k v)"

subsection \<open>ToString, as a template literal applies it\<close>

fun join :: "js_string \<Rightarrow> js_string list \<Rightarrow> js_string" where
  "join sep [] = []"
| "join sep [s] = s"
| "join sep (s # t # ss) = s @ sep @ join sep (t # ss)"

function nat_decimal :: "nat \<Rightarrow> js_string" where
  "nat_decimal n =
     (if n < 10 then [of_nat (48 + n)]
      else nat_decimal (n div 10) @ [of_nat (48 + n mod 10)])"
  by pat_completeness auto
termination
  by (relation "measure id") auto

definition int_decimal :: "int \<Rightarrow> js_string" where
  "int_decimal i = (if i < 0 then ascii ''-'' @ nat_decimal (nat (- i)) else nat_decimal (nat i))"

fun ToString :: "jsval \<Rightarrow> js_string" where
  "ToString JUndefined = ascii ''undefined''"
| "ToString JNull = ascii ''null''"
| "ToString (JBool b) = (if b then ascii ''true'' else ascii ''false'')"
| "ToString (JNum n) = int_decimal n"
| "ToString (JStr s) = s"
| "ToString (JArr xs) =
     join (ascii '','')
       (map (\<lambda>x. if x = JUndefined \<or> x = JNull then [] else ToString x) xs)"
| "ToString (JObj kvs) = ascii ''[object Object]''"

subsection \<open>JSON.stringify\<close>

definition is_high_surrogate :: "16 word \<Rightarrow> bool" where
  "is_high_surrogate c = (0xD800 \<le> c \<and> c \<le> 0xDBFF)"

definition is_low_surrogate :: "16 word \<Rightarrow> bool" where
  "is_low_surrogate c = (0xDC00 \<le> c \<and> c \<le> 0xDFFF)"

definition hex_lower :: "nat \<Rightarrow> 16 word" where
  "hex_lower d = (if d < 10 then of_nat (48 + d) else of_nat (87 + d))"

definition UnicodeEscape :: "16 word \<Rightarrow> js_string" where
  "UnicodeEscape c =
     (let n = unat c in
      [0x5C, 0x75] @ [hex_lower (n div 4096), hex_lower (n div 256 mod 16),
                       hex_lower (n div 16 mod 16), hex_lower (n mod 16)])"

definition quote_unit :: "16 word \<Rightarrow> js_string" where
  "quote_unit c =
     (if c = 0x08 then [0x5C, 0x62]
      else if c = 0x09 then [0x5C, 0x74]
      else if c = 0x0A then [0x5C, 0x6E]
      else if c = 0x0C then [0x5C, 0x66]
      else if c = 0x0D then [0x5C, 0x72]
      else if c = 0x22 then [0x5C, 0x22]
      else if c = 0x5C then [0x5C, 0x5C]
      else if c < 0x20 then UnicodeEscape c
      else [c])"

fun quote_units :: "js_string \<Rightarrow> js_string" where
  "quote_units [] = []"
| "quote_units [c] =
     (if is_high_surrogate c \<or> is_low_surrogate c then UnicodeEscape c else quote_unit c)"
| "quote_units (c # d # s) =
     (if is_high_surrogate c \<and> is_low_surrogate d then c # d # quote_units s
      else if is_high_surrogate c \<or> is_low_surrogate c then UnicodeEscape c @ quote_units (d # s)
      else quote_unit c @ quote_units (d # s))"

definition QuoteJSONString :: "js_string \<Rightarrow> js_string" where
  "QuoteJSONString s = [0x22] @ quote_units s @ [0x22]"

fun SerializeJSONProperty :: "jsval \<Rightarrow> js_string option" where
  "SerializeJSONProperty JUndefined = None"
| "SerializeJSONProperty JNull = Some (ascii ''null'')"
| "SerializeJSONProperty (JBool b) = Some (if b then ascii ''true'' else ascii ''false'')"
| "SerializeJSONProperty (JNum n) = Some (int_decimal n)"
| "SerializeJSONProperty (JStr s) = Some (QuoteJSONString s)"
| "SerializeJSONProperty (JArr xs) =
     Some (ascii ''['' @
           join (ascii '','')
             (map (\<lambda>x. case SerializeJSONProperty x of None \<Rightarrow> ascii ''null'' | Some t \<Rightarrow> t) xs) @
           ascii '']'')"
| "SerializeJSONProperty (JObj kvs) =
     Some (ascii ''{'' @
           join (ascii '','')
             (concat (map (\<lambda>kv. case SerializeJSONProperty (snd kv) of
                                   None \<Rightarrow> []
                                 | Some t \<Rightarrow> [QuoteJSONString (fst kv) @ ascii '':'' @ t]) kvs)) @
           ascii ''}'')"

definition JSON_stringify :: "jsval \<Rightarrow> js_string option" where
  "JSON_stringify v = SerializeJSONProperty v"

section \<open>The built-ins of line 150: \<open>btoa(unescape(encodeURIComponent(content)))\<close>\<close>

subsection \<open>encodeURIComponent\<close>

text \<open>
  ECMAScript's Encode with the unreserved set of \<open>encodeURIComponent\<close>: letters,
  digits and \<open>- _ . ! ~ * ' ( )\<close> stay; every other code point is written as the
  percent-escaped octets of its UTF-8 form; an unpaired surrogate throws URIError.
\<close>

definition uriUnescaped :: "16 word \<Rightarrow> bool" where
  "uriUnescaped c =
     ((0x41 \<le> c \<and> c \<le> 0x5A) \<or> (0x61 \<le> c \<and> c \<le> 0x7A) \<or> (0x30 \<le> c \<and> c \<le> 0x39) \<or>
      c \<in> set [0x2D, 0x5F, 0x2E, 0x21, 0x7E, 0x2A, 0x27, 0x28, 0x29])"

definition hex_upper :: "nat \<Rightarrow> 16 word" where
  "hex_upper d = (if d < 10 then of_nat (48 + d) else of_nat (55 + d))"

definition percent_octet :: "nat \<Rightarrow> js_string" where
  "percent_octet b = [0x25, hex_upper (b div 16), hex_upper (b mod 16)]"

definition UTF8_octets :: "nat \<Rightarrow> nat list" where
  "UTF8_octets cp =
     (if cp < 0x80 then [cp]
      else if cp < 0x800 then [0xC0 + cp div 64, 0x80 + cp mod 64]
      else if cp < 0x10000 then [0xE0 + cp div 4096, 0x80 + cp div 64 mod 64, 0x80 + cp mod 64]
      else [0xF0 + cp div 262144, 0x80 + cp div 4096 mod 64, 0x80 + cp div 64 mod 64,
            0x80 + cp mod 64])"

definition UTF16SurrogatePairToCodePoint :: "16 word \<Rightarrow> 16 word \<Rightarrow> nat" where
  "UTF16SurrogatePairToCodePoint lead trail =
     (unat lead - 0xD800) * 0x400 + (unat trail - 0xDC00) + 0x10000"

definition percent_code_point :: "nat \<Rightarrow> js_string" where
  "percent_code_point cp = concat (map percent_octet (UTF8_octets cp))"

fun encodeURIComponent :: "js_string \<Rightarrow> error + js_string" where
  "encodeURIComponent [] = Inr []"
| "encodeURIComponent (c # s) =
     (if uriUnescaped c then
        (case encodeURIComponent s of Inl e \<Rightarrow> Inl e | Inr r \<Rightarrow> Inr (c # r))
      else if is_low_surrogate c then Inl URIError
      else if is_high_surrogate c then
        (case s of
           [] \<Rightarrow> Inl URIError
         | d # s' \<Rightarrow>
             if is_low_surrogate d then
               (case encodeURIComponent s' of
                  Inl e \<Rightarrow> Inl e
                | Inr r \<Rightarrow> Inr (percent_code_point (UTF16SurrogatePairToCodePoint c d) @ r))
             else Inl URIError)
      else
        (case encodeURIComponent s of
           Inl e \<Rightarrow> Inl e
         | Inr r \<Rightarrow> Inr (percent_code_point (unat c) @ r)))"

subsection \<open>unescape\<close>

text \<open>
  ECMAScript's \<open>unescape\<close> (Annex B): \<open>%uXXXX\<close> and \<open>%XX\<close> with hexadecimal
  digits become the code unit of that value; a \<open>%\<close> that starts neither stays.
\<close>

definition is_hex_digit :: "16 word \<Rightarrow> bool" where
  "is_hex_digit c =
     ((0x30 \<le> c \<and> c \<le> 0x39) \<or> (0x41 \<le> c \<and> c \<le> 0x46) \<or> (0x61 \<le> c \<and> c \<le> 0x66))"

definition hex_digit_value :: "16 word \<Rightarrow> nat" where
  "hex_digit_value c =
     (if c \<le> 0x39 then unat c - 0x30 else if c \<le> 0x46 then unat c - 0x37 else unat c - 0x57)"

definition hex_value :: "js_string \<Rightarrow> nat" where
  "hex_value ds = foldl (\<lambda>n d. 16 * n + hex_digit_value d) 0 ds"

function unescape :: "js_string \<Rightarrow> js_string" where
  "unescape [] = []"
| "unescape (c # s) =
     (if c = 0x25 then
        (if 5 \<le> length s \<and> hd s = 0x75 then
           (if list_all is_hex_digit (take 4 (tl s))
            then of_nat (hex_value (take 4 (tl s))) # unescape (drop 5 s)
            else c # unescape s)
         else if 2 \<le> length s then
           (if list_all is_hex_digit (take 2 s)
            then of_nat (hex_value (take 2 s)) # unescape (drop 2 s)
            else c # unescape s)
         else c # unescape s)
      else c # unescape s)"
  by pat_completeness auto
termination
  by (relation "measure length") auto

subsection \<open>btoa\<close>

text \<open>
  The \<open>btoa\<close> of the HTML standard: a code unit above 255 throws
  InvalidCharacterError; otherwise the code units are bytes and the result is their
  base64 form with padding.
\<close>

definition base64_char :: "nat \<Rightarrow> 16 word" where
  "base64_char n =
     (if n < 26 then of_nat (65 + n)
      else if n < 52 then of_nat (71 + n)
      else if n < 62 then of_nat (n - 4)
      else if n = 62 then 0x2B
      else 0x2F)"

fun base64_encode :: "nat list \<Rightarrow> js_string" where
  "base64_encode [] = []"
| "base64_encode [a] =
     [base64_char (a div 4), base64_char (a mod 4 * 16), 0x3D, 0x3D]"
| "base64_encode [a, b] =
     [base64_char (a div 4), base64_char (a mod 4 * 16 + b div 16),
      base64_char (b mod 16 * 4), 0x3D]"
| "base64_encode (a # b # c # bs) =
     [base64_char (a div 4), base64_char (a mod 4 * 16 + b div 16),
      base64_char (b mod 16 * 4 + c div 64), base64_char (c mod 64)] @ base64_encode bs"

definition btoa :: "js_string \<Rightarrow> error + js_string" where
  "btoa s =
     (if list_ex (\<lambda>c. 0xFF < c) s then Inl InvalidCharacterError
      else Inr (base64_encode (map unat s)))"

section \<open>The environment: local storage and the remote API\<close>

datatype http_method = GET | POST | PATCH

record request =
  r_method :: http_method
  r_url :: js_string
  r_headers :: "(js_string \<times> js_string) list"
  r_body :: "js_string option"

text \<open>
  What \<open>fetch\<close> resolves to: the status, and what \<open>res.json()\<close> resolves to, or
  \<open>None\<close> where the body is not JSON and \<open>res.json()\<close> rejects.
\<close>

record response =
  status :: nat
  json_body :: "jsval option"

datatype fetch_result = Rejected | Resolved response

text \<open>
  The remote side answers each request from everything it has been sent so far: it is a
  function of the requests issued up to and including the current one.
\<close>

type_synonym remote = "request list \<Rightarrow> fetch_result"

type_synonym storage = "js_string \<rightharpoonup> jsval"

text \<open>
  The world a run changes: \<open>chrome.storage.local\<close>, and the requests handed to
  \<open>fetch\<close>, in the order of the calls.
\<close>

record world =
  local_storage :: storage
  trace :: "request list"

definition fetch :: "remote \<Rightarrow> request \<Rightarrow> world \<Rightarrow> (error + response) \<times> world" where
  "fetch net r w =
     (let w' = w\<lparr>trace := trace w @ [r]\<rparr> in
      case net (trace w') of
        Rejected \<Rightarrow> (Inl FetchFailed, w')
      | Resolved res \<Rightarrow> (Inr res, w'))"

definition res_json :: "response \<Rightarrow> error + jsval" where
  "res_json res = (case json_body res of None \<Rightarrow> Inl SyntaxError | Some data \<Rightarrow> Inr data)"

definition Authorization :: "jsval \<Rightarrow> js_string \<times> js_string" where
  "Authorization token = (ascii ''Authorization'', ascii ''token '' @ ToString token)"

definition Content_Type :: "js_string \<times> js_string" where
  "Content_Type = (ascii ''Content-Type'', ascii ''application/json'')"

text \<open>
  Sequencing: \<open>await m f\<close> runs \<open>m\<close> and hands its value to \<open>f\<close>; a rejected
  promise or a \<open>throw\<close> ends the run with the world as it is at that point, since
  nothing in the source catches. \<open>attempt\<close> is an expression evaluated on the spot,
  which may throw.
\<close>

type_synonym 'a action = "world \<Rightarrow> (error + 'a) \<times> world"

definition await :: "'a action \<Rightarrow> ('a \<Rightarrow> 'b action) \<Rightarrow> 'b action" where
  "await m f w = (case m w of (Inl e, w') \<Rightarrow> (Inl e, w') | (Inr x, w') \<Rightarrow> f x w')"

definition attempt :: "error + 'a \<Rightarrow> 'a action" where
  "attempt v w = (v, w)"

section \<open>The request helpers\<close>

definition api :: "js_string" where
  "api = ascii ''https://api.github.com/repos/''"

subsection \<open>getLatestCommitSHA\<close>

definition getLatestCommitSHA_request :: "js_string \<Rightarrow> js_string \<Rightarrow> jsval \<Rightarrow> request" where
  "getLatestCommitSHA_request repo branch token =
     \<lparr>r_method = GET,
      r_url = api @ repo @ ascii ''/git/ref/heads/'' @ branch,
      r_headers = [Authorization token],
      r_body = None\<rparr>"

definition getLatestCommitSHA :: "remote \<Rightarrow> js_string \<Rightarrow> js_string \<Rightarrow> jsval \<Rightarrow> jsval action" where
  "getLatestCommitSHA net repo branch token =
     await (fetch net (getLatestCommitSHA_request repo branch token)) (\<lambda>res.
     await (attempt (res_json res)) (\<lambda>data.
     await (attempt (get_prop data (ascii ''object''))) (\<lambda>obj.
     attempt (get_prop obj (ascii ''sha'')))))"

subsection \<open>createBlob\<close>

definition createBlob_request :: "js_string \<Rightarrow> js_string \<Rightarrow> jsval \<Rightarrow> request" where
  "createBlob_request repo content token =
     \<lparr>r_method = POST,
      r_url = api @ repo @ ascii ''/git/blobs'',
      r_headers = [Authorization token, Content_Type],
      r_body = JSON_stringify (JObj [(ascii ''content'', JStr content),
                                     (ascii ''encoding'', JStr (ascii ''base64''))])\<rparr>"

definition createBlob :: "remote \<Rightarrow> js_string \<Rightarrow> js_string \<Rightarrow> jsval \<Rightarrow> jsval action" where
  "createBlob net repo content token =
     await (fetch net (createBlob_request repo content token)) (\<lambda>res.
     await (attempt (res_json res)) (\<lambda>data.
     attempt (get_prop data (ascii ''sha''))))"

subsection \<open>createTree\<close>

definition createTree_request :: "js_string \<Rightarrow> jsval \<Rightarrow> jsval list \<Rightarrow> jsval \<Rightarrow> request" where
  "createTree_request repo baseTreeSha files token =
     \<lparr>r_method = POST,
      r_url = api @ repo @ ascii ''/git/trees'',
      r_headers = [Authorization token, Content_Type],
      r_body = JSON_stringify (JObj [(ascii ''base_tree'', baseTreeSha),
                                     (ascii ''tree'', JArr files)])\<rparr>"

definition createTree :: "remote \<Rightarrow> js_string \<Rightarrow> jsval \<Rightarrow> jsval list \<Rightarrow> jsval \<Rightarrow> jsval action" where
  "createTree net repo baseTreeSha files token =
     await (fetch net (createTree_request repo baseTreeSha files token)) (\<lambda>res.
     await (attempt (res_json res)) (\<lambda>data.
     attempt (get_prop data (ascii ''sha''))))"

subsection \<open>createCommit\<close>

definition createCommit_request :: "js_string \<Rightarrow> js_string \<Rightarrow> jsval \<Rightarrow> jsval \<Rightarrow> jsval \<Rightarrow> request" where
  "createCommit_request repo message treeSha parentSha token =
     \<lparr>r_method = POST,
      r_url = api @ repo @ ascii ''/git/commits'',
      r_headers = [Authorization token, Content_Type],
      r_body = JSON_stringify (JObj [(ascii ''message'', JStr message),
                                     (ascii ''tree'', treeSha),
                                     (ascii ''parents'', JArr [parentSha])])\<rparr>"

definition createCommit :: "remote \<Rightarrow> js_string \<Rightarrow> js_string \<Rightarrow> jsval \<Rightarrow> jsval \<Rightarrow> jsval \<Rightarrow> jsval action" where
  "createCommit net repo message treeSha parentSha token =
     await (fetch net (createCommit_request repo message treeSha parentSha token)) (\<lambda>res.
     await (attempt (res_json res)) (\<lambda>data.
     attempt (get_prop data (ascii ''sha''))))"

subsection \<open>updateRef\<close>

definition updateRef_request :: "js_string \<Rightarrow> js_string \<Rightarrow> jsval \<Rightarrow> jsval \<Rightarrow> request" where
  "updateRef_request repo branch newCommitSha token =
     \<lparr>r_method = PATCH,
      r_url = api @ repo @ ascii ''/git/refs/heads/'' @ branch,
      r_headers = [Authorization token, Content_Type],
      r_body = JSON_stringify (JObj [(ascii ''sha'', newCommitSha)])\<rparr>"

text \<open>The response is awaited and dropped: neither its status nor its body is read.\<close>

definition updateRef :: "remote \<Rightarrow> js_string \<Rightarrow> js_string \<Rightarrow> jsval \<Rightarrow> jsval \<Rightarrow> unit action" where
  "updateRef net repo branch newCommitSha token =
     await (fetch net (updateRef_request repo branch newCommitSha token)) (\<lambda>res.
     attempt (Inr ()))"

section \<open>commitSolutionFiles\<close>

record input_file =
  f_filename :: js_string
  f_content :: js_string

record params =
  p_repo :: js_string
  p_branch :: js_string
  p_problemName :: js_string
  p_directory :: js_string
  p_files :: "input_file list"
  p_difficulty :: js_string
  p_commitMsg :: js_string

text \<open>
  \<open>getAndInitializeStats\<close> is called at line 178 and defined outside the source at
  hand, so it is a parameter of \<open>commitSolutionFiles\<close> here. Its type follows the
  specification, which calls it an external collaborator that loads or initialises a
  stats record for the problem name, kept in the local store: given the problem name and
  the store it resolves to an object, as the list of its properties, or rejects
  (\<open>None\<close>), and it may write to the store.
\<close>

type_synonym stats_loader = "js_string \<Rightarrow> storage \<Rightarrow> (js_string \<times> jsval) list option \<times> storage"

definition storage_get :: "js_string \<Rightarrow> jsval action" where
  "storage_get key w = (Inr (case local_storage w key of None \<Rightarrow> JUndefined | Some v \<Rightarrow> v), w)"

definition storage_set :: "js_string \<Rightarrow> jsval \<Rightarrow> unit action" where
  "storage_set key v w = (Inr (), w\<lparr>local_storage := (local_storage w)(key \<mapsto> v)\<rparr>)"

definition load_stats :: "stats_loader \<Rightarrow> js_string \<Rightarrow> (js_string \<times> jsval) list action" where
  "load_stats getAndInitializeStats problemName w =
     (case getAndInitializeStats problemName (local_storage w) of
        (None, st) \<Rightarrow> (Inl StatsError, w\<lparr>local_storage := st\<rparr>)
      | (Some stats, st) \<Rightarrow> (Inr stats, w\<lparr>local_storage := st\<rparr>))"

text \<open>Line 150: each built-in may throw, and the throw leaves the loop and the function.\<close>

definition encodedContent :: "js_string \<Rightarrow> error + js_string" where
  "encodedContent content =
     (case encodeURIComponent content of
        Inl e \<Rightarrow> Inl e
      | Inr escaped \<Rightarrow> btoa (unescape escaped))"

definition fileEntry :: "js_string \<Rightarrow> jsval \<Rightarrow> jsval" where
  "fileEntry filePath blobSha =
     JObj [(ascii ''path'', JStr filePath),
           (ascii ''mode'', JStr (ascii ''100644'')),
           (ascii ''type'', JStr (ascii ''blob'')),
           (ascii ''sha'', blobSha)]"

text \<open>
  The loop of lines 145 to 158 over the files still to come, with \<open>fileEntries\<close> as
  built so far.
\<close>

fun for_file_of_files :: "remote \<Rightarrow> js_string \<Rightarrow> js_string \<Rightarrow> jsval \<Rightarrow> input_file list \<Rightarrow> jsval list \<Rightarrow> jsval list action" where
  "for_file_of_files net repo directory token [] fileEntries w = (Inr fileEntries, w)"
| "for_file_of_files net repo directory token (file # rest) fileEntries w =
     (case encodedContent (f_content file) of
        Inl e \<Rightarrow> (Inl e, w)
      | Inr encoded \<Rightarrow>
          (case createBlob net repo encoded token w of
             (Inl e, w') \<Rightarrow> (Inl e, w')
           | (Inr blobSha, w') \<Rightarrow>
               for_file_of_files net repo directory token rest
                 (fileEntries @ [fileEntry (directory @ ascii ''/'' @ f_filename file) blobSha]) w'))"

definition commit_read_request :: "js_string \<Rightarrow> jsval \<Rightarrow> jsval \<Rightarrow> request" where
  "commit_read_request repo latestCommitSha token =
     \<lparr>r_method = GET,
      r_url = api @ repo @ ascii ''/git/commits/'' @ ToString latestCommitSha,
      r_headers = [Authorization token],
      r_body = None\<rparr>"

definition commitSolutionFiles :: "remote \<Rightarrow> stats_loader \<Rightarrow> params \<Rightarrow> jsval action" where
  "commitSolutionFiles net getAndInitializeStats params =
     await (storage_get (ascii ''leethub_token'')) (\<lambda>token.
     if \<not> truthy token then attempt (Inl (Error (ascii ''leethub token is undefined'')))
     else
     await (getLatestCommitSHA net (p_repo params) (p_branch params) token) (\<lambda>latestCommitSha.
     await (for_file_of_files net (p_repo params) (p_directory params) token (p_files params) [])
       (\<lambda>fileEntries.
     await (fetch net (commit_read_request (p_repo params) latestCommitSha token)) (\<lambda>commitRes.
     await (attempt (res_json commitRes)) (\<lambda>commitData.
     await (attempt (get_prop commitData (ascii ''tree''))) (\<lambda>tree.
     await (attempt (get_prop tree (ascii ''sha''))) (\<lambda>baseTreeSha.
     await (createTree net (p_repo params) baseTreeSha fileEntries token) (\<lambda>newTreeSha.
     await (createCommit net (p_repo params) (p_commitMsg params) newTreeSha latestCommitSha token)
       (\<lambda>newCommitSha.
     await (updateRef net (p_repo params) (p_branch params) newCommitSha token) (\<lambda>_.
     await (load_stats getAndInitializeStats (p_problemName params)) (\<lambda>stats.
     await (storage_set (ascii ''stats'')
              (JObj (set_prop stats (ascii ''lastCommitSha'') newCommitSha))) (\<lambda>_.
     attempt (Inr newCommitSha)))))))))))))"

section \<open>Reading a blob payload back\<close>

text \<open>
  What the receiver of a blob with encoding \<open>base64\<close> does, to state that a payload
  carries the content of its file: the base64 text is turned back into bytes, and the
  bytes, read as UTF-8, into the code units of a string.
\<close>

definition base64_index :: "16 word \<Rightarrow> nat option" where
  "base64_index c =
     (if 0x41 \<le> c \<and> c \<le> 0x5A then Some (unat c - 65)
      else if 0x61 \<le> c \<and> c \<le> 0x7A then Some (unat c - 71)
      else if 0x30 \<le> c \<and> c \<le> 0x39 then Some (unat c + 4)
      else if c = 0x2B then Some 62
      else if c = 0x2F then Some 63
      else None)"

fun base64_decode :: "js_string \<Rightarrow> nat list option" where
  "base64_decode [] = Some []"
| "base64_decode (c1 # c2 # c3 # c4 # cs) =
     (case (base64_index c1, base64_index c2) of
        (Some i1, Some i2) \<Rightarrow>
          if c3 = 0x3D \<and> c4 = 0x3D \<and> cs = [] then Some [i1 * 4 + i2 div 16]
          else
            (case base64_index c3 of
               None \<Rightarrow> None
             | Some i3 \<Rightarrow>
                 if c4 = 0x3D \<and> cs = [] then
                   Some [i1 * 4 + i2 div 16, i2 mod 16 * 16 + i3 div 4]
                 else
                   (case base64_index c4 of
                      None \<Rightarrow> None
                    | Some i4 \<Rightarrow>
                        (case base64_decode cs of
                           None \<Rightarrow> None
                         | Some bs \<Rightarrow>
                             Some ([i1 * 4 + i2 div 16, i2 mod 16 * 16 + i3 div 4,
                                    i3 mod 4 * 64 + i4] @ bs))))
      | _ \<Rightarrow> None)"
| "base64_decode cs = None"

definition is_continuation :: "nat \<Rightarrow> bool" where
  "is_continuation b = (0x80 \<le> b \<and> b < 0xC0)"

fun UTF8_decode :: "nat list \<Rightarrow> js_string option" where
  "UTF8_decode [] = Some []"
| "UTF8_decode (b0 # bs) =
     (if b0 < 0x80 then
        (case UTF8_decode bs of None \<Rightarrow> None | Some s \<Rightarrow> Some (of_nat b0 # s))
      else if 0xC0 \<le> b0 \<and> b0 < 0xE0 then
        (case bs of
           b1 # bs' \<Rightarrow>
             if is_continuation b1 then
               (case UTF8_decode bs' of
                  None \<Rightarrow> None
                | Some s \<Rightarrow> Some (of_nat ((b0 - 0xC0) * 64 + (b1 - 0x80)) # s))
             else None
         | _ \<Rightarrow> None)
      else if 0xE0 \<le> b0 \<and> b0 < 0xF0 then
        (case bs of
           b1 # b2 # bs' \<Rightarrow>
             if is_continuation b1 \<and> is_continuation b2 then
               (case UTF8_decode bs' of
                  None \<Rightarrow> None
                | Some s \<Rightarrow>
                    Some (of_nat ((b0 - 0xE0) * 4096 + (b1 - 0x80) * 64 + (b2 - 0x80)) # s))
             else None
         | _ \<Rightarrow> None)
      else if 0xF0 \<le> b0 \<and> b0 < 0xF8 then
        (case bs of
           b1 # b2 # b3 # bs' \<Rightarrow>
             if is_continuation b1 \<and> is_continuation b2 \<and> is_continuation b3 then
               (let cp = (b0 - 0xF0) * 262144 + (b1 - 0x80) * 4096 + (b2 - 0x80) * 64 + (b3 - 0x80)
                in if 0x10000 \<le> cp \<and> cp < 0x110000 then
                     (case UTF8_decode bs' of
                        None \<Rightarrow> None
                      | Some s \<Rightarrow>
                          Some (of_nat (0xD800 + (cp - 0x10000) div 1024) #
                                of_nat (0xDC00 + (cp - 0x10000) mod 1024) # s))
                   else None)
             else None
         | _ \<Rightarrow> None)
      else None)"

definition decode_payload :: "js_string \<Rightarrow> js_string option" where
  "decode_payload payload =
     (case base64_decode payload of None \<Rightarrow> None | Some bytes \<Rightarrow> UTF8_decode bytes)"

section \<open>What a run is measured against\<close>

text \<open>
  The value a helper reads out of the answer to a request: \<open>answer net h path\<close> is the
  property at \<open>path\<close> of the JSON body answering the last request of the history
  \<open>h\<close>, with the failures of \<open>fetch\<close>, of \<open>res.json()\<close> and of the property
  reads on the way.
\<close>

fun read_path :: "jsval \<Rightarrow> js_string list \<Rightarrow> error + jsval" where
  "read_path v [] = Inr v"
| "read_path v (k # ks) = (case get_prop v k of Inl e \<Rightarrow> Inl e | Inr v' \<Rightarrow> read_path v' ks)"

definition answer :: "remote \<Rightarrow> request list \<Rightarrow> js_string list \<Rightarrow> error + jsval" where
  "answer net h path =
     (case net h of
        Rejected \<Rightarrow> Inl FetchFailed
      | Resolved res \<Rightarrow> (case res_json res of Inl e \<Rightarrow> Inl e | Inr data \<Rightarrow> read_path data path))"

text \<open>The token as line 137 reads it: \<open>undefined\<close> where the key is absent.\<close>

definition stored_token :: "world \<Rightarrow> jsval" where
  "stored_token w =
     (case local_storage w (ascii ''leethub_token'') of None \<Rightarrow> JUndefined | Some v \<Rightarrow> v)"

text \<open>
  An action is orderly when it leaves the store alone, only adds requests other than the
  update of the reference to the trace, and stops at the first rejected \<open>fetch\<close> with
  that failure.
\<close>

definition orderly :: "remote \<Rightarrow> 'a action \<Rightarrow> bool" where
  "orderly net m \<longleftrightarrow>
     (\<forall>w r w'. m w = (r, w') \<longrightarrow>
        (\<exists>rs. trace w' = trace w @ rs \<and> (\<forall>q\<in>set rs. r_method q \<noteq> PATCH) \<and>
              local_storage w' = local_storage w \<and>
              (\<forall>k<length rs. net (trace w @ take (Suc k) rs) = Rejected \<longrightarrow>
                  r = Inl FetchFailed \<and> Suc k = length rs)))"

text \<open>An action issues only requests of a kind when every request it adds is of that kind.\<close>

definition issues_only :: "(request \<Rightarrow> bool) \<Rightarrow> 'a action \<Rightarrow> bool" where
  "issues_only Q m \<longleftrightarrow>
     (\<forall>w r w'. m w = (r, w') \<longrightarrow> (\<exists>rs. trace w' = trace w @ rs \<and> (\<forall>q\<in>set rs. Q q)))"

text \<open>
  Lines 141 to 172, from the read of the reference to the creation of the commit, as one
  action: \<open>commitSolutionFiles\<close> is the token check, this, and the update of the
  reference and of the stats (lemma \<open>commitSolutionFiles_phases\<close>).
\<close>

definition build_commit :: "remote \<Rightarrow> params \<Rightarrow> jsval \<Rightarrow> (jsval \<times> jsval) action" where
  "build_commit net params token =
     await (getLatestCommitSHA net (p_repo params) (p_branch params) token) (\<lambda>latestCommitSha.
     await (for_file_of_files net (p_repo params) (p_directory params) token (p_files params) [])
       (\<lambda>fileEntries.
     await (fetch net (commit_read_request (p_repo params) latestCommitSha token)) (\<lambda>commitRes.
     await (attempt (res_json commitRes)) (\<lambda>commitData.
     await (attempt (get_prop commitData (ascii ''tree''))) (\<lambda>tree.
     await (attempt (get_prop tree (ascii ''sha''))) (\<lambda>baseTreeSha.
     await (createTree net (p_repo params) baseTreeSha fileEntries token) (\<lambda>newTreeSha.
     await (createCommit net (p_repo params) (p_commitMsg params) newTreeSha latestCommitSha token)
       (\<lambda>newCommitSha.
     attempt (Inr (latestCommitSha, newCommitSha))))))))))"

definition record_commit :: "stats_loader \<Rightarrow> params \<Rightarrow> jsval \<Rightarrow> jsval action" where
  "record_commit getAndInitializeStats params newCommitSha =
     await (load_stats getAndInitializeStats (p_problemName params)) (\<lambda>stats.
     await (storage_set (ascii ''stats'')
              (JObj (set_prop stats (ascii ''lastCommitSha'') newCommitSha))) (\<lambda>_.
     attempt (Inr newCommitSha)))"

section \<open>A concrete run\<close>

text \<open>
  The scenario of the specification: repository \<open>o/r\<close>, branch \<open>main\<close>, directory
  \<open>d\<close>, the files \<open>README.md\<close> and \<open>sol.py\<close>, and a remote that answers every
  request with fixed SHAs.
\<close>

definition example_params :: params where
  "example_params =
     \<lparr>p_repo = ascii ''o/r'', p_branch = ascii ''main'', p_problemName = ascii ''two-sum'',
      p_directory = ascii ''d'',
      p_files = [\<lparr>f_filename = ascii ''README.md'', f_content = ascii ''# Hi''\<rparr>,
                 \<lparr>f_filename = ascii ''sol.py'', f_content = ascii ''print(1)''\<rparr>],
      p_difficulty = ascii ''Easy'', p_commitMsg = ascii ''Organize solution files''\<rparr>"

definition example_data :: jsval where
  "example_data =
     JObj [(ascii ''sha'', JStr (ascii ''c0ffee'')),
           (ascii ''object'', JObj [(ascii ''sha'', JStr (ascii ''abc123''))]),
           (ascii ''tree'', JObj [(ascii ''sha'', JStr (ascii ''def456''))])]"

definition example_remote_with :: "fetch_result \<Rightarrow> remote" where
  "example_remote_with update_answer h =
     (if r_method (last h) = PATCH then update_answer
      else Resolved \<lparr>status = 200, json_body = Some example_data\<rparr>)"

definition example_remote :: remote where
  "example_remote = example_remote_with (Resolved \<lparr>status = 200, json_body = Some example_data\<rparr>)"

text \<open>A remote that refuses the update of the reference: status 422, fetch resolved.\<close>

definition refusing_remote :: remote where
  "refusing_remote =
     example_remote_with
       (Resolved \<lparr>status = 422,
                  json_body = Some (JObj [(ascii ''message'',
                                           JStr (ascii ''Update is not a fast forward''))])\<rparr>)"

text \<open>A remote on which the connection is lost when the reference is updated.\<close>

definition dropping_remote :: remote where
  "dropping_remote = example_remote_with Rejected"

definition example_stats :: stats_loader where
  "example_stats problemName st =
     (Some (case st (ascii ''stats'') of Some (JObj kvs) \<Rightarrow> kvs | _ \<Rightarrow> []), st)"

definition example_token :: jsval where
  "example_token = JStr (ascii ''ghp_1'')"

definition example_world :: world where
  "example_world = \<lparr>local_storage = [ascii ''leethub_token'' \<mapsto> example_token], trace = []\<rparr>"

definition example_requests :: "request list" where
  "example_requests =
     [getLatestCommitSHA_request (ascii ''o/r'') (ascii ''main'') example_token,
      createBlob_request (ascii ''o/r'') (ascii ''IyBIaQ=='') example_token,
      createBlob_request (ascii ''o/r'') (ascii ''cHJpbnQoMSk='') example_token,
      commit_read_request (ascii ''o/r'') (JStr (ascii ''abc123'')) example_token,
      createTree_request (ascii ''o/r'') (JStr (ascii ''def456''))
        [fileEntry (ascii ''d/README.md'') (JStr (ascii ''c0ffee'')),
         fileEntry (ascii ''d/sol.py'') (JStr (ascii ''c0ffee''))] example_token,
      createCommit_request (ascii ''o/r'') (ascii ''Organize solution files'')
        (JStr (ascii ''c0ffee'')) (JStr (ascii ''abc123'')) example_token,
      updateRef_request (ascii ''o/r'') (ascii ''main'') (JStr (ascii ''c0ffee'')) example_token]"

definition example_outcome :: world where
  "example_outcome =
     \<lparr>local_storage = [ascii ''leethub_token'' \<mapsto> example_token,
                        ascii ''stats'' \<mapsto> JObj [(ascii ''lastCommitSha'', JStr (ascii ''c0ffee''))]],
      trace = example_requests\<rparr>"

definition signed_out_world :: world where
  "signed_out_world = \<lparr>local_storage = Map.empty, trace = []\<rparr>"

definition empty_token_world :: world where
  "empty_token_world = \<lparr>local_storage = [ascii ''leethub_token'' \<mapsto> JStr []], trace = []\<rparr>"

section \<open>Sequencing and the effect of each helper\<close>

lemma await_Inl: "m w = (Inl e, w') \<Longrightarrow> await m f w = (Inl e, w')"
  by (simp add: await_def)

lemma await_Inr: "m w = (Inr x, w') \<Longrightarrow> await m f w = f x w'"
  by (simp add: await_def)

lemma await_attempt_Inr: "await (attempt (Inr x)) f = f x"
  by (rule ext) (simp add: await_def attempt_def)

lemma await_attempt_Inl: "await (attempt (Inl e)) f = attempt (Inl e)"
  by (rule ext) (simp add: await_def attempt_def)

lemma await_assoc: "await (await m f) g = await m (\<lambda>x. await (f x) g)"
  by (rule ext) (simp add: await_def split: prod.splits sum.splits)

lemma await_cases:
  "await m f w = (r, w') \<longleftrightarrow>
     (\<exists>e. m w = (Inl e, w') \<and> r = Inl e) \<or> (\<exists>x w1. m w = (Inr x, w1) \<and> f x w1 = (r, w'))"
  by (auto simp: await_def split: prod.splits sum.splits)

lemma commitSolutionFiles_phases:
  "commitSolutionFiles net gs p =
     await (storage_get (ascii ''leethub_token'')) (\<lambda>token.
     if \<not> truthy token then attempt (Inl (Error (ascii ''leethub token is undefined'')))
     else
     await (build_commit net p token) (\<lambda>(latestCommitSha, newCommitSha).
     await (updateRef net (p_repo p) (p_branch p) newCommitSha token) (\<lambda>_.
     record_commit gs p newCommitSha)))"
  by (simp add: commitSolutionFiles_def build_commit_def record_commit_def await_assoc await_attempt_Inr
      cong: if_cong)

lemma fetch_eq:
  "fetch net r w = ((case net (trace w @ [r]) of Rejected \<Rightarrow> Inl FetchFailed | Resolved res \<Rightarrow> Inr res), w\<lparr>trace := trace w @ [r]\<rparr>)"
  by (simp add: fetch_def split: fetch_result.splits)

lemma getLatestCommitSHA_eq:
  "getLatestCommitSHA net repo branch token w =
     (answer net (trace w @ [getLatestCommitSHA_request repo branch token]) [ascii ''object'', ascii ''sha''],
      w\<lparr>trace := trace w @ [getLatestCommitSHA_request repo branch token]\<rparr>)"
  by (simp add: getLatestCommitSHA_def fetch_eq await_def attempt_def answer_def
      split: fetch_result.splits sum.splits)

lemma createBlob_eq:
  "createBlob net repo content token w =
     (answer net (trace w @ [createBlob_request repo content token]) [ascii ''sha''],
      w\<lparr>trace := trace w @ [createBlob_request repo content token]\<rparr>)"
  by (simp add: createBlob_def fetch_eq await_def attempt_def answer_def
      split: fetch_result.splits sum.splits)

lemma createTree_eq:
  "createTree net repo baseTreeSha files token w =
     (answer net (trace w @ [createTree_request repo baseTreeSha files token]) [ascii ''sha''],
      w\<lparr>trace := trace w @ [createTree_request repo baseTreeSha files token]\<rparr>)"
  by (simp add: createTree_def fetch_eq await_def attempt_def answer_def
      split: fetch_result.splits sum.splits)

lemma createCommit_eq:
  "createCommit net repo message treeSha parentSha token w =
     (answer net (trace w @ [createCommit_request repo message treeSha parentSha token]) [ascii ''sha''],
      w\<lparr>trace := trace w @ [createCommit_request repo message treeSha parentSha token]\<rparr>)"
  by (simp add: createCommit_def fetch_eq await_def attempt_def answer_def
      split: fetch_result.splits sum.splits)

lemma updateRef_eq:
  "updateRef net repo branch newCommitSha token w =
     ((case net (trace w @ [updateRef_request repo branch newCommitSha token]) of
         Rejected \<Rightarrow> Inl FetchFailed | Resolved res \<Rightarrow> Inr ()),
      w\<lparr>trace := trace w @ [updateRef_request repo branch newCommitSha token]\<rparr>)"
  by (simp add: updateRef_def fetch_eq await_def attempt_def split: fetch_result.splits)

lemma commit_read_eq:
  "await (fetch net (commit_read_request repo sha token)) (\<lambda>commitRes.
     await (attempt (res_json commitRes)) (\<lambda>commitData.
     await (attempt (get_prop commitData (ascii ''tree''))) (\<lambda>tree.
     await (attempt (get_prop tree (ascii ''sha''))) f))) w =
   (case answer net (trace w @ [commit_read_request repo sha token]) [ascii ''tree'', ascii ''sha''] of
      Inl e \<Rightarrow> (Inl e, w\<lparr>trace := trace w @ [commit_read_request repo sha token]\<rparr>)
    | Inr baseTreeSha \<Rightarrow> f baseTreeSha (w\<lparr>trace := trace w @ [commit_read_request repo sha token]\<rparr>))"
  by (simp add: fetch_eq await_def attempt_def answer_def split: fetch_result.splits sum.splits)

lemma orderly_attempt: "orderly net (attempt v)"
  by (simp add: orderly_def attempt_def)

lemma orderly_fetch: "r_method q \<noteq> PATCH \<Longrightarrow> orderly net (fetch net q)"
  by (auto simp: orderly_def fetch_eq split: fetch_result.splits)

lemma orderly_await:
  assumes m: "orderly net m" and f: "\<And>x. orderly net (f x)"
  shows "orderly net (await m f)"
  unfolding orderly_def
proof (intro allI impI)
  fix w r w'
  assume run: "await m f w = (r, w')"
  from run consider
    (fail) e where "m w = (Inl e, w')" "r = Inl e"
  | (ok) x w1 where "m w = (Inr x, w1)" "f x w1 = (r, w')"
    by (auto simp: await_cases)
  then show "\<exists>rs. trace w' = trace w @ rs \<and> (\<forall>q\<in>set rs. r_method q \<noteq> PATCH) \<and>
              local_storage w' = local_storage w \<and>
              (\<forall>k<length rs. net (trace w @ take (Suc k) rs) = Rejected \<longrightarrow>
                  r = Inl FetchFailed \<and> Suc k = length rs)"
  proof cases
    case fail
    with m show ?thesis unfolding orderly_def by blast
  next
    case ok
    from m ok(1) obtain rs1 where 1: "trace w1 = trace w @ rs1" "\<forall>q\<in>set rs1. r_method q \<noteq> PATCH"
      "local_storage w1 = local_storage w"
      "\<forall>k<length rs1. net (trace w @ take (Suc k) rs1) \<noteq> Rejected"
      unfolding orderly_def by blast
    from f[of x] ok(2) obtain rs2 where 2: "trace w' = trace w1 @ rs2" "\<forall>q\<in>set rs2. r_method q \<noteq> PATCH"
      "local_storage w' = local_storage w1"
      "\<forall>k<length rs2. net (trace w1 @ take (Suc k) rs2) = Rejected \<longrightarrow>
          r = Inl FetchFailed \<and> Suc k = length rs2"
      unfolding orderly_def by blast
    have "\<forall>k<length (rs1 @ rs2). net (trace w @ take (Suc k) (rs1 @ rs2)) = Rejected \<longrightarrow>
            r = Inl FetchFailed \<and> Suc k = length (rs1 @ rs2)"
    proof (intro allI impI)
      fix k assume k: "k < length (rs1 @ rs2)" and rej: "net (trace w @ take (Suc k) (rs1 @ rs2)) = Rejected"
      show "r = Inl FetchFailed \<and> Suc k = length (rs1 @ rs2)"
      proof (cases "k < length rs1")
        case True
        then have "take (Suc k) (rs1 @ rs2) = take (Suc k) rs1" by simp
        with rej 1(4) True show ?thesis by simp
      next
        case False
        then have t: "take (Suc k) (rs1 @ rs2) = rs1 @ take (Suc (k - length rs1)) rs2"
          by (simp add: Suc_diff_le)
        from False k have k2: "k - length rs1 < length rs2" by simp
        from rej t 1(1) have "net (trace w1 @ take (Suc (k - length rs1)) rs2) = Rejected" by simp
        with 2(4) k2 have "r = Inl FetchFailed \<and> Suc (k - length rs1) = length rs2" by blast
        with False show ?thesis by auto
      qed
    qed
    with 1 2 show ?thesis
      by (intro exI[of _ "rs1 @ rs2"]) auto
  qed
qed

lemma orderly_answer:
  assumes "r_method q \<noteq> PATCH"
  shows "orderly net (\<lambda>w. (answer net (trace w @ [q]) path, w\<lparr>trace := trace w @ [q]\<rparr>))"
  using assms by (auto simp: orderly_def answer_def split: fetch_result.splits)

lemma orderly_getLatestCommitSHA: "orderly net (getLatestCommitSHA net repo branch token)"
  unfolding getLatestCommitSHA_def
  by (intro orderly_await orderly_fetch orderly_attempt) (simp add: getLatestCommitSHA_request_def)

lemma orderly_createBlob: "orderly net (createBlob net repo content token)"
  unfolding createBlob_def
  by (intro orderly_await orderly_fetch orderly_attempt) (simp add: createBlob_request_def)

lemma orderly_createTree: "orderly net (createTree net repo b fs token)"
  unfolding createTree_def
  by (intro orderly_await orderly_fetch orderly_attempt) (simp add: createTree_request_def)

lemma orderly_createCommit: "orderly net (createCommit net repo msg t par token)"
  unfolding createCommit_def
  by (intro orderly_await orderly_fetch orderly_attempt) (simp add: createCommit_request_def)

lemma loop_unfold:
  "for_file_of_files net repo directory token (file # rest) fileEntries =
     await (attempt (encodedContent (f_content file))) (\<lambda>encoded.
     await (createBlob net repo encoded token) (\<lambda>blobSha.
     for_file_of_files net repo directory token rest
       (fileEntries @ [fileEntry (directory @ ascii ''/'' @ f_filename file) blobSha])))"
  by (rule ext) (simp add: await_def attempt_def split: sum.splits prod.splits)

lemma orderly_loop: "orderly net (for_file_of_files net repo directory token files fileEntries)"
proof (induction files arbitrary: fileEntries)
  case Nil
  have "for_file_of_files net repo directory token [] fileEntries = attempt (Inr fileEntries)"
    by (rule ext) (simp add: attempt_def)
  then show ?case by (simp add: orderly_attempt)
next
  case (Cons f rest)
  show ?case
    unfolding loop_unfold
    by (intro orderly_await orderly_attempt orderly_createBlob Cons.IH)
qed

lemma orderly_build_commit: "orderly net (build_commit net p token)"
  unfolding build_commit_def
  by (intro orderly_await orderly_attempt orderly_getLatestCommitSHA orderly_loop
      orderly_createTree orderly_createCommit orderly_fetch)
    (simp add: commit_read_request_def)

section \<open>Successful runs\<close>

lemma loop_success:
  "for_file_of_files net repo dir token files entries w = (Inr es, w') \<Longrightarrow>
   \<exists>encs shas. length encs = length files \<and> length shas = length files \<and>
     (\<forall>i<length files.
        encodedContent (f_content (files ! i)) = Inr (encs ! i) \<and>
        answer net (trace w @ map (\<lambda>e. createBlob_request repo e token) (take (Suc i) encs))
          [ascii ''sha''] = Inr (shas ! i)) \<and>
     w' = w\<lparr>trace := trace w @ map (\<lambda>e. createBlob_request repo e token) encs\<rparr> \<and>
     es = entries @ map2 (\<lambda>f s. fileEntry (dir @ ascii ''/'' @ f_filename f) s) files shas"
proof (induction files arbitrary: entries w)
  case Nil
  then show ?case by simp
next
  case (Cons f rest)
  from Cons.prems obtain enc where enc: "encodedContent (f_content f) = Inr enc"
    by (auto split: sum.splits)
  let ?q = "createBlob_request repo enc token"
  let ?w1 = "w\<lparr>trace := trace w @ [?q]\<rparr>"
  from Cons.prems enc obtain sha where sha: "answer net (trace w @ [?q]) [ascii ''sha''] = Inr sha"
    and rest: "for_file_of_files net repo dir token rest
                 (entries @ [fileEntry (dir @ ascii ''/'' @ f_filename f) sha]) ?w1 = (Inr es, w')"
    by (auto simp: createBlob_eq split: sum.splits)
  from Cons.IH[OF rest] obtain encs shas where ih:
    "length encs = length rest" "length shas = length rest"
    "\<forall>i<length rest.
        encodedContent (f_content (rest ! i)) = Inr (encs ! i) \<and>
        answer net (trace ?w1 @ map (\<lambda>e. createBlob_request repo e token) (take (Suc i) encs))
          [ascii ''sha''] = Inr (shas ! i)"
    "w' = ?w1\<lparr>trace := trace ?w1 @ map (\<lambda>e. createBlob_request repo e token) encs\<rparr>"
    "es = (entries @ [fileEntry (dir @ ascii ''/'' @ f_filename f) sha]) @
          map2 (\<lambda>f s. fileEntry (dir @ ascii ''/'' @ f_filename f) s) rest shas"
    by blast
  have each: "\<forall>i<length (f # rest).
        encodedContent (f_content ((f # rest) ! i)) = Inr ((enc # encs) ! i) \<and>
        answer net (trace w @ map (\<lambda>e. createBlob_request repo e token) (take (Suc i) (enc # encs)))
          [ascii ''sha''] = Inr ((sha # shas) ! i)"
  proof (intro allI impI)
    fix i assume i: "i < length (f # rest)"
    show "encodedContent (f_content ((f # rest) ! i)) = Inr ((enc # encs) ! i) \<and>
        answer net (trace w @ map (\<lambda>e. createBlob_request repo e token) (take (Suc i) (enc # encs)))
          [ascii ''sha''] = Inr ((sha # shas) ! i)"
    proof (cases i)
      case 0
      with enc sha show ?thesis by simp
    next
      case (Suc j)
      with i have "j < length rest" by simp
      with ih(3) Suc show ?thesis by simp
    qed
  qed
  show ?case
    apply (rule exI[of _ "enc # encs"])
    apply (rule exI[of _ "sha # shas"])
    using ih(1,2,4,5) each by simp
qed

lemma build_commit_success:
  assumes "build_commit net p token w = (Inr (tip, new), w')"
  shows "\<exists>encs shas base newTree.
     length encs = length (p_files p) \<and> length shas = length (p_files p) \<and>
     answer net (trace w @ [getLatestCommitSHA_request (p_repo p) (p_branch p) token])
       [ascii ''object'', ascii ''sha''] = Inr tip \<and>
     (\<forall>i<length (p_files p).
        encodedContent (f_content (p_files p ! i)) = Inr (encs ! i) \<and>
        answer net (trace w @ getLatestCommitSHA_request (p_repo p) (p_branch p) token #
                    map (\<lambda>e. createBlob_request (p_repo p) e token) (take (Suc i) encs))
          [ascii ''sha''] = Inr (shas ! i)) \<and>
     answer net (trace w @ getLatestCommitSHA_request (p_repo p) (p_branch p) token #
                 map (\<lambda>e. createBlob_request (p_repo p) e token) encs @
                 [commit_read_request (p_repo p) tip token])
       [ascii ''tree'', ascii ''sha''] = Inr base \<and>
     answer net (trace w @ getLatestCommitSHA_request (p_repo p) (p_branch p) token #
                 map (\<lambda>e. createBlob_request (p_repo p) e token) encs @
                 [commit_read_request (p_repo p) tip token,
                  createTree_request (p_repo p) base
                    (map2 (\<lambda>f s. fileEntry (p_directory p @ ascii ''/'' @ f_filename f) s) (p_files p) shas)
                    token])
       [ascii ''sha''] = Inr newTree \<and>
     answer net (trace w @ getLatestCommitSHA_request (p_repo p) (p_branch p) token #
                 map (\<lambda>e. createBlob_request (p_repo p) e token) encs @
                 [commit_read_request (p_repo p) tip token,
                  createTree_request (p_repo p) base
                    (map2 (\<lambda>f s. fileEntry (p_directory p @ ascii ''/'' @ f_filename f) s) (p_files p) shas)
                    token,
                  createCommit_request (p_repo p) (p_commitMsg p) newTree tip token])
       [ascii ''sha''] = Inr new \<and>
     w' = w\<lparr>trace := trace w @ getLatestCommitSHA_request (p_repo p) (p_branch p) token #
                 map (\<lambda>e. createBlob_request (p_repo p) e token) encs @
                 [commit_read_request (p_repo p) tip token,
                  createTree_request (p_repo p) base
                    (map2 (\<lambda>f s. fileEntry (p_directory p @ ascii ''/'' @ f_filename f) s) (p_files p) shas)
                    token,
                  createCommit_request (p_repo p) (p_commitMsg p) newTree tip token]\<rparr>"
proof -
  let ?q0 = "getLatestCommitSHA_request (p_repo p) (p_branch p) token"
  let ?w1 = "w\<lparr>trace := trace w @ [?q0]\<rparr>"
  from assms obtain tip' where tip': "answer net (trace w @ [?q0]) [ascii ''object'', ascii ''sha''] = Inr tip'"
    and r1: "await (for_file_of_files net (p_repo p) (p_directory p) token (p_files p) [])
       (\<lambda>fileEntries.
     await (fetch net (commit_read_request (p_repo p) tip' token)) (\<lambda>commitRes.
     await (attempt (res_json commitRes)) (\<lambda>commitData.
     await (attempt (get_prop commitData (ascii ''tree''))) (\<lambda>tree.
     await (attempt (get_prop tree (ascii ''sha''))) (\<lambda>baseTreeSha.
     await (createTree net (p_repo p) baseTreeSha fileEntries token) (\<lambda>newTreeSha.
     await (createCommit net (p_repo p) (p_commitMsg p) newTreeSha tip' token)
       (\<lambda>newCommitSha.
     attempt (Inr (tip', newCommitSha))))))))) ?w1 = (Inr (tip, new), w')"
    unfolding build_commit_def
    by (subst (asm) await_cases) (auto simp: getLatestCommitSHA_eq)
  from r1 obtain es w2 where loop: "for_file_of_files net (p_repo p) (p_directory p) token (p_files p) [] ?w1 = (Inr es, w2)"
    and r2: "await (fetch net (commit_read_request (p_repo p) tip' token)) (\<lambda>commitRes.
     await (attempt (res_json commitRes)) (\<lambda>commitData.
     await (attempt (get_prop commitData (ascii ''tree''))) (\<lambda>tree.
     await (attempt (get_prop tree (ascii ''sha''))) (\<lambda>baseTreeSha.
     await (createTree net (p_repo p) baseTreeSha es token) (\<lambda>newTreeSha.
     await (createCommit net (p_repo p) (p_commitMsg p) newTreeSha tip' token)
       (\<lambda>newCommitSha.
     attempt (Inr (tip', newCommitSha)))))))) w2 = (Inr (tip, new), w')"
    by (subst (asm) await_cases) auto
  from loop_success[OF loop] obtain encs shas where l:
    "length encs = length (p_files p)" "length shas = length (p_files p)"
    "\<forall>i<length (p_files p).
        encodedContent (f_content (p_files p ! i)) = Inr (encs ! i) \<and>
        answer net (trace ?w1 @ map (\<lambda>e. createBlob_request (p_repo p) e token) (take (Suc i) encs))
          [ascii ''sha''] = Inr (shas ! i)"
    "w2 = ?w1\<lparr>trace := trace ?w1 @ map (\<lambda>e. createBlob_request (p_repo p) e token) encs\<rparr>"
    "es = [] @ map2 (\<lambda>f s. fileEntry (p_directory p @ ascii ''/'' @ f_filename f) s) (p_files p) shas"
    by blast
  from r2 obtain base newTree where t:
    "answer net (trace w2 @ [commit_read_request (p_repo p) tip' token]) [ascii ''tree'', ascii ''sha''] = Inr base"
    "answer net (trace w2 @ [commit_read_request (p_repo p) tip' token, createTree_request (p_repo p) base es token]) [ascii ''sha''] = Inr newTree"
    "answer net (trace w2 @ [commit_read_request (p_repo p) tip' token, createTree_request (p_repo p) base es token,
        createCommit_request (p_repo p) (p_commitMsg p) newTree tip' token]) [ascii ''sha''] = Inr new"
    "tip = tip'"
    "w' = w2\<lparr>trace := trace w2 @ [commit_read_request (p_repo p) tip' token, createTree_request (p_repo p) base es token,
        createCommit_request (p_repo p) (p_commitMsg p) newTree tip' token]\<rparr>"
    apply (subst (asm) commit_read_eq)
    apply (auto simp: await_cases createTree_eq createCommit_eq attempt_def split: sum.splits)
    done
  show ?thesis
    apply (rule exI[of _ encs], rule exI[of _ shas], rule exI[of _ base], rule exI[of _ newTree])
    using tip' l t apply simp
    done
qed

lemma commitSolutionFiles_unfold:
  "commitSolutionFiles net gs p w =
     (if \<not> truthy (stored_token w) then (Inl (Error (ascii ''leethub token is undefined'')), w)
      else
        (case build_commit net p (stored_token w) w of
           (Inl e, w1) \<Rightarrow> (Inl e, w1)
         | (Inr (tip, new), w1) \<Rightarrow>
             (case net (trace w1 @ [updateRef_request (p_repo p) (p_branch p) new (stored_token w)]) of
                Rejected \<Rightarrow>
                  (Inl FetchFailed,
                   w1\<lparr>trace := trace w1 @ [updateRef_request (p_repo p) (p_branch p) new (stored_token w)]\<rparr>)
              | Resolved res \<Rightarrow>
                  (case gs (p_problemName p) (local_storage w1) of
                     (None, st) \<Rightarrow>
                       (Inl StatsError,
                        \<lparr>local_storage = st,
                         trace = trace w1 @ [updateRef_request (p_repo p) (p_branch p) new (stored_token w)]\<rparr>)
                   | (Some stats, st) \<Rightarrow>
                       (Inr new,
                        \<lparr>local_storage = st(ascii ''stats'' \<mapsto> JObj (set_prop stats (ascii ''lastCommitSha'') new)),
                         trace = trace w1 @ [updateRef_request (p_repo p) (p_branch p) new (stored_token w)]\<rparr>)))))"
  unfolding commitSolutionFiles_phases
  by (simp add: await_def attempt_def storage_get_def stored_token_def updateRef_eq record_commit_def
      load_stats_def storage_set_def
      split: prod.splits sum.splits fetch_result.splits option.splits)

lemma build_commit_storage: "build_commit net p token w = (r, w1) \<Longrightarrow> local_storage w1 = local_storage w"
  using orderly_build_commit[of net p token] unfolding orderly_def by blast

lemma commitSolutionFiles_success:
  assumes "commitSolutionFiles net gs p w = (Inr result, w')"
  shows "\<exists>tip w1 res stats st.
           truthy (stored_token w) \<and>
           build_commit net p (stored_token w) w = (Inr (tip, result), w1) \<and>
           net (trace w1 @ [updateRef_request (p_repo p) (p_branch p) result (stored_token w)]) = Resolved res \<and>
           gs (p_problemName p) (local_storage w) = (Some stats, st) \<and>
           w' = \<lparr>local_storage = st(ascii ''stats'' \<mapsto> JObj (set_prop stats (ascii ''lastCommitSha'') result)),
                 trace = trace w1 @ [updateRef_request (p_repo p) (p_branch p) result (stored_token w)]\<rparr>"
proof -
  from assms have t: "truthy (stored_token w)"
    by (auto simp: commitSolutionFiles_unfold split: if_splits)
  obtain r1 w1 where b: "build_commit net p (stored_token w) w = (r1, w1)" by fastforce
  with assms t obtain tip new where r1: "r1 = Inr (tip, new)"
    by (auto simp: commitSolutionFiles_unfold split: sum.splits)
  from build_commit_storage[OF b] have s: "local_storage w1 = local_storage w" .
  from assms t b r1 s show ?thesis
    by (auto simp: commitSolutionFiles_unfold split: fetch_result.splits option.splits prod.splits)
qed

lemma map_of_set_prop: "map_of (set_prop kvs k v) k = Some v"
  by (induction kvs) auto

section \<open>The concrete run, evaluated\<close>

lemmas builtin_defs = ascii_def uriUnescaped_def is_low_surrogate_def is_high_surrogate_def
  percent_code_point_def UTF8_octets_def percent_octet_def hex_upper_def is_hex_digit_def
  hex_value_def hex_digit_value_def btoa_def base64_char_def

lemma encodedContent_README: "encodedContent (ascii ''# Hi'') = Inr (ascii ''IyBIaQ=='')"
  by (simp add: encodedContent_def builtin_defs)

lemma encodedContent_sol: "encodedContent (ascii ''print(1)'') = Inr (ascii ''cHJpbnQoMSk='')"
  by (simp add: encodedContent_def builtin_defs)

lemma example_truthy: "truthy example_token"
  by (simp add: example_token_def ascii_def)

lemma example_stored_token: "stored_token example_world = example_token"
  by (simp add: stored_token_def example_world_def)

lemma example_answers:
  assumes "r_method (last h) \<noteq> PATCH"
  shows "answer (example_remote_with u) h [ascii ''sha''] = Inr (JStr (ascii ''c0ffee''))"
    and "answer (example_remote_with u) h [ascii ''object'', ascii ''sha''] =
           Inr (JStr (ascii ''abc123''))"
    and "answer (example_remote_with u) h [ascii ''tree'', ascii ''sha''] =
           Inr (JStr (ascii ''def456''))"
  using assms
  by (simp_all add: answer_def example_remote_with_def res_json_def example_data_def ascii_def)

lemma request_methods:
  "r_method (getLatestCommitSHA_request repo branch token) = GET"
  "r_method (createBlob_request repo content token) = POST"
  "r_method (commit_read_request repo sha token) = GET"
  "r_method (createTree_request repo base entries token) = POST"
  "r_method (createCommit_request repo msg tree parent token) = POST"
  "r_method (updateRef_request repo branch sha token) = PATCH"
  by (simp_all add: getLatestCommitSHA_request_def createBlob_request_def commit_read_request_def
      createTree_request_def createCommit_request_def updateRef_request_def)

lemma example_params_simps:
  "p_repo example_params = ascii ''o/r''"
  "p_branch example_params = ascii ''main''"
  "p_problemName example_params = ascii ''two-sum''"
  "p_directory example_params = ascii ''d''"
  "p_commitMsg example_params = ascii ''Organize solution files''"
  "p_files example_params =
     [\<lparr>f_filename = ascii ''README.md'', f_content = ascii ''# Hi''\<rparr>,
      \<lparr>f_filename = ascii ''sol.py'', f_content = ascii ''print(1)''\<rparr>]"
  by (simp_all add: example_params_def)

lemma example_paths:
  "ascii ''d'' @ ascii ''/'' @ ascii ''README.md'' = ascii ''d/README.md''"
  "ascii ''d'' @ ascii ''/'' @ ascii ''sol.py'' = ascii ''d/sol.py''"
  by (simp_all add: ascii_def)

lemma example_loop:
  "for_file_of_files (example_remote_with u) (ascii ''o/r'') (ascii ''d'') example_token
     (p_files example_params) [] w =
     (Inr [fileEntry (ascii ''d/README.md'') (JStr (ascii ''c0ffee'')),
           fileEntry (ascii ''d/sol.py'') (JStr (ascii ''c0ffee''))],
      w\<lparr>trace := trace w @ [createBlob_request (ascii ''o/r'') (ascii ''IyBIaQ=='') example_token,
                              createBlob_request (ascii ''o/r'') (ascii ''cHJpbnQoMSk='') example_token]\<rparr>)"
  by (simp add: example_params_simps encodedContent_README encodedContent_sol createBlob_eq
      example_answers request_methods example_paths)

lemma example_build:
  "build_commit (example_remote_with u) example_params example_token example_world =
     (Inr (JStr (ascii ''abc123''), JStr (ascii ''c0ffee'')),
      example_world\<lparr>trace := butlast example_requests\<rparr>)"
proof -
  let ?net = "example_remote_with u"
  have w0: "trace example_world = []" by (simp add: example_world_def)
  have tip: "getLatestCommitSHA ?net repo branch t w =
      (Inr (JStr (ascii ''abc123'')), w\<lparr>trace := trace w @ [getLatestCommitSHA_request repo branch t]\<rparr>)"
    for repo branch t w
    by (simp add: getLatestCommitSHA_eq example_answers request_methods)
  have tree: "createTree ?net repo b es t w =
      (Inr (JStr (ascii ''c0ffee'')), w\<lparr>trace := trace w @ [createTree_request repo b es t]\<rparr>)"
    for repo b es t w
    by (simp add: createTree_eq example_answers request_methods)
  have commit: "createCommit ?net repo m tr par t w =
      (Inr (JStr (ascii ''c0ffee'')), w\<lparr>trace := trace w @ [createCommit_request repo m tr par t]\<rparr>)"
    for repo m tr par t w
    by (simp add: createCommit_eq example_answers request_methods)
  show ?thesis
    unfolding build_commit_def example_params_simps(1-5)
    apply (subst await_Inr[OF tip])
    apply (subst await_Inr[OF example_loop])
    apply (subst commit_read_eq)
    apply (simp add: example_answers request_methods)
    apply (subst await_Inr[OF tree])
    apply (subst await_Inr[OF commit])
    apply (simp add: attempt_def w0 example_requests_def)
    done
qed

lemma example_storage_get:
  "storage_get (ascii ''leethub_token'') example_world = (Inr example_token, example_world)"
  by (simp add: storage_get_def example_world_def)

lemma example_record_commit:
  "record_commit example_stats example_params sha (example_world\<lparr>trace := t\<rparr>) =
     (Inr sha, \<lparr>local_storage = [ascii ''leethub_token'' \<mapsto> example_token,
                                  ascii ''stats'' \<mapsto> JObj [(ascii ''lastCommitSha'', sha)]],
               trace = t\<rparr>)"
  by (simp add: record_commit_def await_def load_stats_def example_stats_def storage_set_def attempt_def
      example_world_def ascii_def)

lemma example_run_upto_update:
  "commitSolutionFiles (example_remote_with u) example_stats example_params example_world =
     await (updateRef (example_remote_with u) (ascii ''o/r'') (ascii ''main'') (JStr (ascii ''c0ffee''))
              example_token)
       (\<lambda>_. record_commit example_stats example_params (JStr (ascii ''c0ffee'')))
       (example_world\<lparr>trace := butlast example_requests\<rparr>)"
  unfolding commitSolutionFiles_phases
  apply (subst await_Inr[of "storage_get (ascii ''leethub_token'')" example_world,
                         OF example_storage_get])
  apply (simp only: example_truthy not_True_eq_False if_False)
  apply (subst await_Inr[of "build_commit (example_remote_with u) example_params example_token"
                            example_world, OF example_build])
  apply (simp add: example_params_simps)
  done

lemma example_update_request:
  "butlast example_requests @
     [updateRef_request (ascii ''o/r'') (ascii ''main'') (JStr (ascii ''c0ffee'')) example_token] =
   example_requests"
  by (simp add: example_requests_def)

lemma example_last: "r_method (last example_requests) = PATCH"
  by (simp add: example_requests_def request_methods)

lemma example_run_resolved:
  "commitSolutionFiles (example_remote_with (Resolved res)) example_stats example_params example_world =
     (Inr (JStr (ascii ''c0ffee'')), example_outcome)"
  by (simp add: example_run_upto_update await_def updateRef_eq example_remote_with_def
      request_methods attempt_def example_record_commit example_outcome_def example_update_request
      example_last)

lemma example_run:
  "commitSolutionFiles example_remote example_stats example_params example_world =
     (Inr (JStr (ascii ''c0ffee'')), example_outcome)"
  unfolding example_remote_def by (rule example_run_resolved)

lemma refused_run:
  "commitSolutionFiles refusing_remote example_stats example_params example_world =
     (Inr (JStr (ascii ''c0ffee'')), example_outcome)"
  unfolding refusing_remote_def by (rule example_run_resolved)

lemma dropped_run:
  "commitSolutionFiles dropping_remote example_stats example_params example_world =
     (Inl FetchFailed, example_world\<lparr>trace := example_requests\<rparr>)"
  by (simp add: dropping_remote_def example_run_upto_update await_def updateRef_eq
      example_remote_with_def request_methods example_update_request example_last)

section \<open>Every run, by cases\<close>

lemma successful_run:
  assumes "commitSolutionFiles net gs p w = (Inr result, w')"
  shows "\<exists>tip encs shas base newTree res stats st.
     truthy (stored_token w) \<and>
     length encs = length (p_files p) \<and> length shas = length (p_files p) \<and>
     answer net (trace w @ [getLatestCommitSHA_request (p_repo p) (p_branch p) (stored_token w)])
       [ascii ''object'', ascii ''sha''] = Inr tip \<and>
     (\<forall>i<length (p_files p).
        encodedContent (f_content (p_files p ! i)) = Inr (encs ! i) \<and>
        answer net (trace w @ getLatestCommitSHA_request (p_repo p) (p_branch p) (stored_token w) #
                    map (\<lambda>e. createBlob_request (p_repo p) e (stored_token w)) (take (Suc i) encs))
          [ascii ''sha''] = Inr (shas ! i)) \<and>
     answer net (trace w @ getLatestCommitSHA_request (p_repo p) (p_branch p) (stored_token w) #
                 map (\<lambda>e. createBlob_request (p_repo p) e (stored_token w)) encs @
                 [commit_read_request (p_repo p) tip (stored_token w)])
       [ascii ''tree'', ascii ''sha''] = Inr base \<and>
     answer net (trace w @ getLatestCommitSHA_request (p_repo p) (p_branch p) (stored_token w) #
                 map (\<lambda>e. createBlob_request (p_repo p) e (stored_token w)) encs @
                 [commit_read_request (p_repo p) tip (stored_token w),
                  createTree_request (p_repo p) base
                    (map2 (\<lambda>f s. fileEntry (p_directory p @ ascii ''/'' @ f_filename f) s) (p_files p) shas)
                    (stored_token w)])
       [ascii ''sha''] = Inr newTree \<and>
     answer net (trace w @ getLatestCommitSHA_request (p_repo p) (p_branch p) (stored_token w) #
                 map (\<lambda>e. createBlob_request (p_repo p) e (stored_token w)) encs @
                 [commit_read_request (p_repo p) tip (stored_token w),
                  createTree_request (p_repo p) base
                    (map2 (\<lambda>f s. fileEntry (p_directory p @ ascii ''/'' @ f_filename f) s) (p_files p) shas)
                    (stored_token w),
                  createCommit_request (p_repo p) (p_commitMsg p) newTree tip (stored_token w)])
       [ascii ''sha''] = Inr result \<and>
     net (trace w') = Resolved res \<and>
     gs (p_problemName p) (local_storage w) = (Some stats, st) \<and>
     local_storage w' = st(ascii ''stats'' \<mapsto> JObj (set_prop stats (ascii ''lastCommitSha'') result)) \<and>
     trace w' = trace w @ getLatestCommitSHA_request (p_repo p) (p_branch p) (stored_token w) #
                 map (\<lambda>e. createBlob_request (p_repo p) e (stored_token w)) encs @
                 [commit_read_request (p_repo p) tip (stored_token w),
                  createTree_request (p_repo p) base
                    (map2 (\<lambda>f s. fileEntry (p_directory p @ ascii ''/'' @ f_filename f) s) (p_files p) shas)
                    (stored_token w),
                  createCommit_request (p_repo p) (p_commitMsg p) newTree tip (stored_token w),
                  updateRef_request (p_repo p) (p_branch p) result (stored_token w)]"
proof -
  from commitSolutionFiles_success[OF assms] obtain tip w1 res stats st where a:
    "truthy (stored_token w)"
    "build_commit net p (stored_token w) w = (Inr (tip, result), w1)"
    "net (trace w1 @ [updateRef_request (p_repo p) (p_branch p) result (stored_token w)]) = Resolved res"
    "gs (p_problemName p) (local_storage w) = (Some stats, st)"
    "w' = \<lparr>local_storage = st(ascii ''stats'' \<mapsto> JObj (set_prop stats (ascii ''lastCommitSha'') result)),
          trace = trace w1 @ [updateRef_request (p_repo p) (p_branch p) result (stored_token w)]\<rparr>"
    by blast
  from build_commit_success[OF a(2)] obtain encs shas base newTree where b:
     "length encs = length (p_files p)" "length shas = length (p_files p)"
     "answer net (trace w @ [getLatestCommitSHA_request (p_repo p) (p_branch p) (stored_token w)])
       [ascii ''object'', ascii ''sha''] = Inr tip"
     "(\<forall>i<length (p_files p).
        encodedContent (f_content (p_files p ! i)) = Inr (encs ! i) \<and>
        answer net (trace w @ getLatestCommitSHA_request (p_repo p) (p_branch p) (stored_token w) #
                    map (\<lambda>e. createBlob_request (p_repo p) e (stored_token w)) (take (Suc i) encs))
          [ascii ''sha''] = Inr (shas ! i))"
     "answer net (trace w @ getLatestCommitSHA_request (p_repo p) (p_branch p) (stored_token w) #
                 map (\<lambda>e. createBlob_request (p_repo p) e (stored_token w)) encs @
                 [commit_read_request (p_repo p) tip (stored_token w)])
       [ascii ''tree'', ascii ''sha''] = Inr base"
     "answer net (trace w @ getLatestCommitSHA_request (p_repo p) (p_branch p) (stored_token w) #
                 map (\<lambda>e. createBlob_request (p_repo p) e (stored_token w)) encs @
                 [commit_read_request (p_repo p) tip (stored_token w),
                  createTree_request (p_repo p) base
                    (map2 (\<lambda>f s. fileEntry (p_directory p @ ascii ''/'' @ f_filename f) s) (p_files p) shas)
                    (stored_token w)])
       [ascii ''sha''] = Inr newTree"
     "answer net (trace w @ getLatestCommitSHA_request (p_repo p) (p_branch p) (stored_token w) #
                 map (\<lambda>e. createBlob_request (p_repo p) e (stored_token w)) encs @
                 [commit_read_request (p_repo p) tip (stored_token w),
                  createTree_request (p_repo p) base
                    (map2 (\<lambda>f s. fileEntry (p_directory p @ ascii ''/'' @ f_filename f) s) (p_files p) shas)
                    (stored_token w),
                  createCommit_request (p_repo p) (p_commitMsg p) newTree tip (stored_token w)])
       [ascii ''sha''] = Inr result"
     "w1 = w\<lparr>trace := trace w @ getLatestCommitSHA_request (p_repo p) (p_branch p) (stored_token w) #
                 map (\<lambda>e. createBlob_request (p_repo p) e (stored_token w)) encs @
                 [commit_read_request (p_repo p) tip (stored_token w),
                  createTree_request (p_repo p) base
                    (map2 (\<lambda>f s. fileEntry (p_directory p @ ascii ''/'' @ f_filename f) s) (p_files p) shas)
                    (stored_token w),
                  createCommit_request (p_repo p) (p_commitMsg p) newTree tip (stored_token w)]\<rparr>"
    by blast
  show ?thesis
    apply (rule exI[of _ tip], rule exI[of _ encs], rule exI[of _ shas], rule exI[of _ base],
           rule exI[of _ newTree], rule exI[of _ res], rule exI[of _ stats], rule exI[of _ st])
    using a(1,3,4,5) b by simp
qed

lemma run_cases:
  assumes "commitSolutionFiles net gs p w = (r, w')"
  shows "(\<not> truthy (stored_token w) \<and> r = Inl (Error (ascii ''leethub token is undefined'')) \<and> w' = w) \<or>
         (\<exists>e. truthy (stored_token w) \<and> build_commit net p (stored_token w) w = (Inl e, w') \<and> r = Inl e) \<or>
         (\<exists>tip new w1. truthy (stored_token w) \<and>
            build_commit net p (stored_token w) w = (Inr (tip, new), w1) \<and>
            trace w' = trace w1 @ [updateRef_request (p_repo p) (p_branch p) new (stored_token w)] \<and>
            (net (trace w') = Rejected \<and> r = Inl FetchFailed \<and> local_storage w' = local_storage w \<or>
             (\<exists>res st. net (trace w') = Resolved res \<and>
                gs (p_problemName p) (local_storage w) = (None, st) \<and> r = Inl StatsError \<and>
                local_storage w' = st) \<or>
             (\<exists>res stats st. net (trace w') = Resolved res \<and>
                gs (p_problemName p) (local_storage w) = (Some stats, st) \<and> r = Inr new \<and>
                local_storage w' =
                  st(ascii ''stats'' \<mapsto> JObj (set_prop stats (ascii ''lastCommitSha'') new)))))"
proof (cases "truthy (stored_token w)")
  case False
  with assms show ?thesis by (simp add: commitSolutionFiles_unfold)
next
  case True
  obtain r1 w1 where b: "build_commit net p (stored_token w) w = (r1, w1)" by fastforce
  from build_commit_storage[OF b] have s: "local_storage w1 = local_storage w" .
  show ?thesis
  proof (cases r1)
    case (Inl e)
    with assms True b show ?thesis by (simp add: commitSolutionFiles_unfold)
  next
    case (Inr pair)
    obtain tip new where pair: "pair = (tip, new)" by fastforce
    let ?u = "updateRef_request (p_repo p) (p_branch p) new (stored_token w)"
    show ?thesis
    proof (cases "net (trace w1 @ [?u])")
      case Rejected
      with assms True b Inr pair s show ?thesis
        by (auto simp: commitSolutionFiles_unfold)
    next
      case (Resolved res)
      obtain o1 st where g: "gs (p_problemName p) (local_storage w) = (o1, st)" by fastforce
      with assms True b Inr pair s Resolved show ?thesis
        by (cases o1) (auto simp: commitSolutionFiles_unfold)
    qed
  qed
qed

lemma build_commit_orderly:
  assumes "build_commit net p token w = (r, w1)"
  shows "\<exists>rs. trace w1 = trace w @ rs \<and> (\<forall>q\<in>set rs. r_method q \<noteq> PATCH) \<and>
              local_storage w1 = local_storage w \<and>
              (\<forall>k<length rs. net (trace w @ take (Suc k) rs) = Rejected \<longrightarrow>
                  r = Inl FetchFailed \<and> Suc k = length rs)"
  using orderly_build_commit[of net p token] assms unfolding orderly_def by blast

lemma run_requests:
  assumes "commitSolutionFiles net gs p w = (r, w')"
  shows "\<exists>rs. trace w' = trace w @ rs \<and> (\<forall>q\<in>set (butlast rs). r_method q \<noteq> PATCH) \<and>
           (\<forall>k<length rs. net (trace w @ take (Suc k) rs) = Rejected \<longrightarrow>
               r = Inl FetchFailed \<and> Suc k = length rs \<and> local_storage w' = local_storage w)"
  using run_cases[OF assms]
proof (elim disjE[of "\<not> truthy (stored_token w) \<and> _"] disjE[of "\<exists>e. _ e"] exE conjE)
  assume "w' = w"
  then show ?thesis by (intro exI[of _ "[]"]) simp
next
  fix e assume b: "build_commit net p (stored_token w) w = (Inl e, w')" and r: "r = Inl e"
  from build_commit_orderly[OF b] obtain rs where rs: "trace w' = trace w @ rs"
    "\<forall>q\<in>set rs. r_method q \<noteq> PATCH" "local_storage w' = local_storage w"
    "\<forall>k<length rs. net (trace w @ take (Suc k) rs) = Rejected \<longrightarrow> Inl e = (Inl FetchFailed :: error + jsval \<times> jsval) \<and> Suc k = length rs"
    by blast
  show ?thesis
    apply (rule exI[of _ rs])
    using rs r by (auto dest: in_set_butlastD)
next
  fix tip new w1
  assume b: "build_commit net p (stored_token w) w = (Inr (tip, new), w1)"
    and t: "trace w' = trace w1 @ [updateRef_request (p_repo p) (p_branch p) new (stored_token w)]"
    and after: "net (trace w') = Rejected \<and> r = Inl FetchFailed \<and> local_storage w' = local_storage w \<or>
             (\<exists>res st. net (trace w') = Resolved res \<and>
                gs (p_problemName p) (local_storage w) = (None, st) \<and> r = Inl StatsError \<and>
                local_storage w' = st) \<or>
             (\<exists>res stats st. net (trace w') = Resolved res \<and>
                gs (p_problemName p) (local_storage w) = (Some stats, st) \<and> r = Inr new \<and>
                local_storage w' =
                  st(ascii ''stats'' \<mapsto> JObj (set_prop stats (ascii ''lastCommitSha'') new)))"
  from build_commit_orderly[OF b] obtain rs where rs: "trace w1 = trace w @ rs"
    "\<forall>q\<in>set rs. r_method q \<noteq> PATCH"
    "\<forall>k<length rs. net (trace w @ take (Suc k) rs) \<noteq> Rejected"
    by auto
  let ?u = "updateRef_request (p_repo p) (p_branch p) new (stored_token w)"
  from after have last: "net (trace w') = Rejected \<longrightarrow>
      r = Inl FetchFailed \<and> local_storage w' = local_storage w"
    by auto
  have "\<forall>k<length (rs @ [?u]). net (trace w @ take (Suc k) (rs @ [?u])) = Rejected \<longrightarrow>
               r = Inl FetchFailed \<and> Suc k = length (rs @ [?u]) \<and> local_storage w' = local_storage w"
  proof (intro allI impI)
    fix k assume k: "k < length (rs @ [?u])" and rj: "net (trace w @ take (Suc k) (rs @ [?u])) = Rejected"
    show "r = Inl FetchFailed \<and> Suc k = length (rs @ [?u]) \<and> local_storage w' = local_storage w"
    proof (cases "k < length rs")
      case True
      then have "take (Suc k) (rs @ [?u]) = take (Suc k) rs" by simp
      with rj rs(3) True show ?thesis by simp
    next
      case False
      with k have "k = length rs" by simp
      with rj rs(1) t have "net (trace w') = Rejected" by simp
      with last \<open>k = length rs\<close> show ?thesis by simp
    qed
  qed
  with rs t show ?thesis
    by (intro exI[of _ "rs @ [?u]"]) simp
qed

lemma in_set_butlast_or_last: "q \<in> set rs \<Longrightarrow> q \<in> set (butlast rs) \<or> q = last rs"
  by (induction rs) auto

section \<open>The blob requests of any run\<close>

lemma issues_attempt: "issues_only Q (attempt v)"
  by (simp add: issues_only_def attempt_def)

lemma issues_fetch: "Q q \<Longrightarrow> issues_only Q (fetch net q)"
  by (simp add: issues_only_def fetch_eq)

lemma issues_await:
  assumes m: "issues_only Q m"
    and f: "\<And>x w w1. m w = (Inr x, w1) \<Longrightarrow> issues_only Q (f x)"
  shows "issues_only Q (await m f)"
  unfolding issues_only_def
proof (intro allI impI)
  fix w r w'
  assume run: "await m f w = (r, w')"
  from run consider
    (fail) e where "m w = (Inl e, w')" "r = Inl e"
  | (ok) x w1 where "m w = (Inr x, w1)" "f x w1 = (r, w')"
    by (auto simp: await_cases)
  then show "\<exists>rs. trace w' = trace w @ rs \<and> (\<forall>q\<in>set rs. Q q)"
  proof cases
    case fail
    with m show ?thesis unfolding issues_only_def by blast
  next
    case ok
    from m ok(1) obtain rs1 where 1: "trace w1 = trace w @ rs1" "\<forall>q\<in>set rs1. Q q"
      unfolding issues_only_def by blast
    from f[OF ok(1)] ok(2) obtain rs2 where 2: "trace w' = trace w1 @ rs2" "\<forall>q\<in>set rs2. Q q"
      unfolding issues_only_def by blast
    from 1 2 show ?thesis by (intro exI[of _ "rs1 @ rs2"]) auto
  qed
qed

lemma issues_createBlob:
  "Q (createBlob_request repo content token) \<Longrightarrow> issues_only Q (createBlob net repo content token)"
  unfolding createBlob_def by (intro issues_await issues_fetch issues_attempt)

lemma issues_loop:
  assumes "\<And>file encoded. file \<in> set files \<Longrightarrow> encodedContent (f_content file) = Inr encoded \<Longrightarrow>
             Q (createBlob_request repo encoded token)"
  shows "issues_only Q (for_file_of_files net repo directory token files fileEntries)"
  using assms
proof (induction files arbitrary: fileEntries)
  case Nil
  have "for_file_of_files net repo directory token [] fileEntries = attempt (Inr fileEntries)"
    by (rule ext) (simp add: attempt_def)
  then show ?case by (simp add: issues_attempt)
next
  case (Cons f rest)
  have rest: "issues_only Q (for_file_of_files net repo directory token rest es)" for es
  proof (rule Cons.IH)
    fix g encoded
    assume "g \<in> set rest" "encodedContent (f_content g) = Inr encoded"
    then show "Q (createBlob_request repo encoded token)" by (intro Cons.prems) simp_all
  qed
  show ?case
    unfolding loop_unfold
  proof (rule issues_await[OF issues_attempt])
    fix encoded w w1
    assume "attempt (encodedContent (f_content f)) w = (Inr encoded, w1)"
    then have "encodedContent (f_content f) = Inr encoded" by (simp add: attempt_def)
    then have "Q (createBlob_request repo encoded token)" by (intro Cons.prems) simp_all
    then show "issues_only Q (await (createBlob net repo encoded token) (\<lambda>blobSha.
        for_file_of_files net repo directory token rest
          (fileEntries @ [fileEntry (directory @ ascii ''/'' @ f_filename f) blobSha])))"
      by (intro issues_await issues_createBlob rest)
  qed
qed

lemma issues_build_commit:
  assumes blob: "\<And>file encoded. file \<in> set (p_files p) \<Longrightarrow>
             encodedContent (f_content file) = Inr encoded \<Longrightarrow>
             Q (createBlob_request (p_repo p) encoded token)"
    and other: "\<And>q. r_url q \<noteq> api @ p_repo p @ ascii ''/git/blobs'' \<Longrightarrow> Q q"
  shows "issues_only Q (build_commit net p token)"
proof -
  have urls:
    "r_url (getLatestCommitSHA_request (p_repo p) b token) \<noteq> api @ p_repo p @ ascii ''/git/blobs''"
    "r_url (commit_read_request (p_repo p) sha token) \<noteq> api @ p_repo p @ ascii ''/git/blobs''"
    "r_url (createTree_request (p_repo p) base es token) \<noteq> api @ p_repo p @ ascii ''/git/blobs''"
    "r_url (createCommit_request (p_repo p) msg tr par token) \<noteq> api @ p_repo p @ ascii ''/git/blobs''"
    for b sha base es msg tr par
    by (simp_all add: getLatestCommitSHA_request_def commit_read_request_def createTree_request_def
        createCommit_request_def ascii_def)
  show ?thesis
    unfolding build_commit_def getLatestCommitSHA_def createTree_def createCommit_def
    by (intro issues_await issues_attempt issues_fetch issues_loop blob other urls)
qed

lemma run_blob_requests:
  assumes "commitSolutionFiles net gs p w = (r, w')"
  shows "\<exists>rs. trace w' = trace w @ rs \<and>
           (\<forall>q\<in>set rs. r_url q = api @ p_repo p @ ascii ''/git/blobs'' \<longrightarrow>
              (\<exists>file\<in>set (p_files p). \<exists>encoded.
                  encodedContent (f_content file) = Inr encoded \<and>
                  q = createBlob_request (p_repo p) encoded (stored_token w)))"
proof -
  let ?Q = "\<lambda>q. r_url q = api @ p_repo p @ ascii ''/git/blobs'' \<longrightarrow>
              (\<exists>file\<in>set (p_files p). \<exists>encoded.
                  encodedContent (f_content file) = Inr encoded \<and>
                  q = createBlob_request (p_repo p) encoded (stored_token w))"
  have b: "issues_only ?Q (build_commit net p (stored_token w))"
    by (rule issues_build_commit) auto
  have u: "?Q (updateRef_request (p_repo p) (p_branch p) new (stored_token w))" for new
    by (simp add: updateRef_request_def ascii_def)
  from run_cases[OF assms] show ?thesis
  proof (elim disjE[of "\<not> truthy (stored_token w) \<and> _"] disjE[of "\<exists>e. _ e"] exE conjE)
    assume "w' = w"
    then show ?thesis by (intro exI[of _ "[]"]) simp
  next
    fix e assume "build_commit net p (stored_token w) w = (Inl e, w')"
    with b show ?thesis unfolding issues_only_def by blast
  next
    fix tip new and w1 :: world
    assume bc: "build_commit net p (stored_token w) w = (Inr (tip, new), w1)"
      and t: "trace w' = trace w1 @ [updateRef_request (p_repo p) (p_branch p) new (stored_token w)]"
    from b bc obtain rs where rs: "trace w1 = trace w @ rs" "\<forall>q\<in>set rs. ?Q q"
      unfolding issues_only_def by blast
    show ?thesis
      apply (rule exI[of _ "rs @ [updateRef_request (p_repo p) (p_branch p) new (stored_token w)]"])
      using rs t u[of new] by simp
  qed
qed

section \<open>A payload decodes to the content of its file\<close>

lemma unat_of_nat16: "n < 65536 \<Longrightarrow> unat (of_nat n :: 16 word) = n"
  by (simp add: unat_of_nat)

lemma le16: "((a :: 16 word) \<le> b) = (unat a \<le> unat b)"
  by (rule word_le_nat_alt)

lemma less16: "((a :: 16 word) < b) = (unat a < unat b)"
  by (rule word_less_nat_alt)

lemma eq16: "((a :: 16 word) = b) = (unat a = unat b)"
  by (simp add: word_unat_eq_iff)

lemma base64_index_nat:
  "base64_index c =
     (if 65 \<le> unat c \<and> unat c \<le> 90 then Some (unat c - 65)
      else if 97 \<le> unat c \<and> unat c \<le> 122 then Some (unat c - 71)
      else if 48 \<le> unat c \<and> unat c \<le> 57 then Some (unat c + 4)
      else if unat c = 43 then Some 62
      else if unat c = 47 then Some 63
      else None)"
  by (simp add: base64_index_def le16 eq16)

lemma unat_base64_char:
  "n < 64 \<Longrightarrow> unat (base64_char n) =
     (if n < 26 then 65 + n else if n < 52 then 71 + n else if n < 62 then n - 4
      else if n = 62 then 43 else 47)"
  unfolding base64_char_def by (simp add: unat_of_nat16 del: of_nat_add of_nat_diff)

lemma base64_index_char: "n < 64 \<Longrightarrow> base64_index (base64_char n) = Some n"
  by (auto simp: base64_index_nat unat_base64_char)

lemma base64_char_not_pad: "n < 64 \<Longrightarrow> base64_char n \<noteq> 0x3D"
  by (auto simp: eq16 unat_base64_char)

lemma sextets:
  fixes a b c :: nat
  assumes "b < 256" "c < 256"
  shows "a div 4 * 4 + (a mod 4 * 16 + b div 16) div 16 = a"
    and "(a mod 4 * 16 + b div 16) mod 16 * 16 + (b mod 16 * 4 + c div 64) div 4 = b"
    and "(b mod 16 * 4 + c div 64) mod 4 * 64 + c mod 64 = c"
    and "(a mod 4 * 16 + b div 16) mod 16 * 16 + b mod 16 * 4 div 4 = b"
    and "a div 4 * 4 + a mod 4 * 16 div 16 = a"
proof -
  from assms have 1: "b div 16 < 16" "c div 64 < 4" by simp_all
  then have 2: "(a mod 4 * 16 + b div 16) div 16 = a mod 4"
    "(a mod 4 * 16 + b div 16) mod 16 = b div 16"
    "(b mod 16 * 4 + c div 64) div 4 = b mod 16"
    "(b mod 16 * 4 + c div 64) mod 4 = c div 64"
    by simp_all
  have 3: "a div 4 * 4 + a mod 4 = a" "b div 16 * 16 + b mod 16 = b" "c div 64 * 64 + c mod 64 = c"
    "b mod 16 * 4 div 4 = b mod 16" "a mod 4 * 16 div 16 = a mod 4"
    by simp_all
  show "a div 4 * 4 + (a mod 4 * 16 + b div 16) div 16 = a"
    and "(a mod 4 * 16 + b div 16) mod 16 * 16 + (b mod 16 * 4 + c div 64) div 4 = b"
    and "(b mod 16 * 4 + c div 64) mod 4 * 64 + c mod 64 = c"
    and "(a mod 4 * 16 + b div 16) mod 16 * 16 + b mod 16 * 4 div 4 = b"
    and "a div 4 * 4 + a mod 4 * 16 div 16 = a"
    by (simp_all only: 2 3)
qed

lemma sextet_bounds:
  fixes a b c :: nat
  assumes "a < 256" "b < 256" "c < 256"
  shows "a div 4 < 64" "a mod 4 * 16 < 64" "a mod 4 * 16 + b div 16 < 64" "b mod 16 * 4 < 64"
    "b mod 16 * 4 + c div 64 < 64" "c mod 64 < 64"
proof -
  from assms have "b div 16 < 16" "c div 64 < 4" "a div 4 < 64" by simp_all
  moreover have "a mod 4 < 4" "b mod 16 < 16" by simp_all
  ultimately show "a div 4 < 64" "a mod 4 * 16 < 64" "a mod 4 * 16 + b div 16 < 64" "b mod 16 * 4 < 64"
    "b mod 16 * 4 + c div 64 < 64" "c mod 64 < 64"
    by simp_all
qed

lemma base64_decode_quad:
  assumes "i1 < 64" "i2 < 64" "i3 < 64" "i4 < 64"
  shows "base64_decode ([base64_char i1, base64_char i2, base64_char i3, base64_char i4] @ cs) =
           (case base64_decode cs of None \<Rightarrow> None
            | Some bs \<Rightarrow> Some ([i1 * 4 + i2 div 16, i2 mod 16 * 16 + i3 div 4, i3 mod 4 * 64 + i4] @ bs))"
    and "base64_decode [base64_char i1, base64_char i2, base64_char i3, 0x3D] =
           Some [i1 * 4 + i2 div 16, i2 mod 16 * 16 + i3 div 4]"
    and "base64_decode [base64_char i1, base64_char i2, 0x3D, 0x3D] = Some [i1 * 4 + i2 div 16]"
  using assms by (simp_all add: base64_index_char base64_char_not_pad)

lemma base64_roundtrip:
  "\<forall>b\<in>set bs. b < 256 \<Longrightarrow> base64_decode (base64_encode bs) = Some bs"
proof (induction bs rule: base64_encode.induct)
  case 1
  then show ?case by simp
next
  case (2 a)
  then have a: "a < 256" by simp
  have "base64_decode (base64_encode [a]) = Some [a div 4 * 4 + a mod 4 * 16 div 16]"
    unfolding base64_encode.simps
    by (rule base64_decode_quad(3)[of _ _ 0 0]) (simp_all add: sextet_bounds[OF a a a])
  then show ?case by (simp only: sextets(5)[OF a a])
next
  case (3 a b)
  then have a: "a < 256" and b: "b < 256" by simp_all
  have "base64_decode (base64_encode [a, b]) =
          Some [a div 4 * 4 + (a mod 4 * 16 + b div 16) div 16,
                (a mod 4 * 16 + b div 16) mod 16 * 16 + b mod 16 * 4 div 4]"
    unfolding base64_encode.simps
    by (rule base64_decode_quad(2)[of _ _ _ 0]) (simp_all add: sextet_bounds[OF a b b])
  then show ?case by (simp only: sextets[OF b b])
next
  case (4 a b c bs)
  then have a: "a < 256" and b: "b < 256" and c: "c < 256" by simp_all
  from 4 have ih: "base64_decode (base64_encode bs) = Some bs" by simp
  have "base64_decode (base64_encode (a # b # c # bs)) =
          Some ([a div 4 * 4 + (a mod 4 * 16 + b div 16) div 16,
                 (a mod 4 * 16 + b div 16) mod 16 * 16 + (b mod 16 * 4 + c div 64) div 4,
                 (b mod 16 * 4 + c div 64) mod 4 * 64 + c mod 64] @ bs)"
    unfolding base64_encode.simps
    by (subst base64_decode_quad(1)) (simp_all add: sextet_bounds[OF a b c] ih)
  then show ?case by (simp only: sextets[OF b c] append.simps)
qed

lemma unat_hex_upper: "d < 16 \<Longrightarrow> unat (hex_upper d) = (if d < 10 then 48 + d else 55 + d)"
  unfolding hex_upper_def by (simp add: unat_of_nat16 del: of_nat_add)

lemma hex_upper_facts:
  assumes "d < 16"
  shows "is_hex_digit (hex_upper d)" "hex_upper d \<noteq> 0x75" "hex_digit_value (hex_upper d) = d"
  using assms by (auto simp: is_hex_digit_def hex_digit_value_def le16 eq16 unat_hex_upper)

lemma unescape_percent_octet:
  assumes "b < 256"
  shows "unescape (percent_octet b @ t) = of_nat b # unescape t"
proof -
  from assms have d: "b div 16 < 16" "b mod 16 < 16" by simp_all
  have v: "hex_value [hex_upper (b div 16), hex_upper (b mod 16)] = b"
    by (simp add: hex_value_def hex_upper_facts(3)[OF d(1)] hex_upper_facts(3)[OF d(2)])
  have "unescape (0x25 # hex_upper (b div 16) # hex_upper (b mod 16) # t) =
          of_nat (hex_value [hex_upper (b div 16), hex_upper (b mod 16)]) # unescape t"
    by (simp add: hex_upper_facts(1,2)[OF d(1)] hex_upper_facts(1)[OF d(2)])
  then show ?thesis by (simp only: v percent_octet_def append.simps)
qed

lemma unescape_percent_octets:
  "\<forall>b\<in>set os. b < 256 \<Longrightarrow>
   unescape (concat (map percent_octet os) @ t) = map of_nat os @ unescape t"
proof (induction os)
  case Nil
  then show ?case by simp
next
  case (Cons b os)
  then have "unescape (percent_octet b @ (concat (map percent_octet os) @ t)) =
             of_nat b # unescape (concat (map percent_octet os) @ t)"
    by (intro unescape_percent_octet) simp
  with Cons show ?case by simp
qed

lemma uriUnescaped_facts:
  assumes "uriUnescaped c"
  shows "c \<noteq> 0x25" "unat c < 0x80"
  using assms by (auto simp: uriUnescaped_def le16 eq16)

lemma unescape_plain: "c \<noteq> 0x25 \<Longrightarrow> unescape (c # t) = c # unescape t"
  by simp

lemma UTF8_octets_bytes: "cp < 0x110000 \<Longrightarrow> \<forall>b\<in>set (UTF8_octets cp). b < 256"
  by (auto simp: UTF8_octets_def)

lemma UTF8_decode_1:
  "b0 < 0x80 \<Longrightarrow> UTF8_decode (b0 # bs) =
     (case UTF8_decode bs of None \<Rightarrow> None | Some s \<Rightarrow> Some (of_nat b0 # s))"
  by simp

lemma UTF8_decode_2:
  "0xC0 \<le> b0 \<Longrightarrow> b0 < 0xE0 \<Longrightarrow> is_continuation b1 \<Longrightarrow>
   UTF8_decode (b0 # b1 # bs) =
     (case UTF8_decode bs of None \<Rightarrow> None
      | Some s \<Rightarrow> Some (of_nat ((b0 - 0xC0) * 64 + (b1 - 0x80)) # s))"
  by simp

lemma UTF8_decode_3:
  "0xE0 \<le> b0 \<Longrightarrow> b0 < 0xF0 \<Longrightarrow> is_continuation b1 \<Longrightarrow> is_continuation b2 \<Longrightarrow>
   UTF8_decode (b0 # b1 # b2 # bs) =
     (case UTF8_decode bs of None \<Rightarrow> None
      | Some s \<Rightarrow> Some (of_nat ((b0 - 0xE0) * 4096 + (b1 - 0x80) * 64 + (b2 - 0x80)) # s))"
  by simp

lemma UTF8_decode_4:
  "0xF0 \<le> b0 \<Longrightarrow> b0 < 0xF8 \<Longrightarrow> is_continuation b1 \<Longrightarrow> is_continuation b2 \<Longrightarrow>
   is_continuation b3 \<Longrightarrow>
   cp = (b0 - 0xF0) * 262144 + (b1 - 0x80) * 4096 + (b2 - 0x80) * 64 + (b3 - 0x80) \<Longrightarrow>
   0x10000 \<le> cp \<Longrightarrow> cp < 0x110000 \<Longrightarrow>
   UTF8_decode (b0 # b1 # b2 # b3 # bs) =
     (case UTF8_decode bs of None \<Rightarrow> None
      | Some s \<Rightarrow> Some (of_nat (0xD800 + (cp - 0x10000) div 1024) #
                        of_nat (0xDC00 + (cp - 0x10000) mod 1024) # s))"
  by (cases "UTF8_decode bs") (simp_all add: Let_def)

lemma split_4096: "n div 4096 * 4096 + n div 64 mod 64 * 64 + n mod 64 = (n::nat)"
proof -
  have "n mod 4096 = 64 * (n div 64 mod 64) + n mod 64"
    using mod_mult2_eq[of n 64 64] by simp
  moreover have "n div 4096 * 4096 + n mod 4096 = n" by simp
  ultimately show ?thesis by linarith
qed

lemma UTF8_decode_unit:
  assumes "\<not> is_high_surrogate c" "\<not> is_low_surrogate c"
  shows "UTF8_decode (UTF8_octets (unat c) @ bs) =
     (case UTF8_decode bs of None \<Rightarrow> None | Some s \<Rightarrow> Some (c # s))"
proof -
  let ?n = "unat c"
  have n: "?n < 65536" using unsigned_less[of c] by simp
  consider "?n < 0x80" | "0x80 \<le> ?n" "?n < 0x800" | "0x800 \<le> ?n" by linarith
  then show ?thesis
  proof cases
    case 1
    then show ?thesis by (simp add: UTF8_octets_def split: option.split)
  next
    case 2
    then have d: "?n div 64 < 32" by simp
    have v: "(0xC0 + ?n div 64 - 0xC0) * 64 + (0x80 + ?n mod 64 - 0x80) = ?n" by simp
    have "UTF8_decode ((0xC0 + ?n div 64) # (0x80 + ?n mod 64) # bs) =
       (case UTF8_decode bs of None \<Rightarrow> None
        | Some s \<Rightarrow> Some (of_nat ((0xC0 + ?n div 64 - 0xC0) * 64 + (0x80 + ?n mod 64 - 0x80)) # s))"
      using d by (intro UTF8_decode_2) (simp_all add: is_continuation_def)
    with 2 show ?thesis by (simp only: v) (simp add: UTF8_octets_def split: option.split)
  next
    case 3
    from n have d: "?n div 4096 < 16" by simp
    have v: "(0xE0 + ?n div 4096 - 0xE0) * 4096 + (0x80 + ?n div 64 mod 64 - 0x80) * 64 +
             (0x80 + ?n mod 64 - 0x80) = ?n"
      using split_4096[of ?n] by simp
    have "UTF8_decode ((0xE0 + ?n div 4096) # (0x80 + ?n div 64 mod 64) # (0x80 + ?n mod 64) # bs) =
       (case UTF8_decode bs of None \<Rightarrow> None
        | Some s \<Rightarrow> Some (of_nat ((0xE0 + ?n div 4096 - 0xE0) * 4096 +
                                   (0x80 + ?n div 64 mod 64 - 0x80) * 64 +
                                   (0x80 + ?n mod 64 - 0x80)) # s))"
      using d by (intro UTF8_decode_3) (simp_all add: is_continuation_def)
    with 3 n show ?thesis by (simp only: v) (simp add: UTF8_octets_def split: option.split)
  qed
qed

lemma split_262144:
  "n div 262144 * 262144 + n div 4096 mod 64 * 4096 + n div 64 mod 64 * 64 + n mod 64 = (n::nat)"
proof -
  have "n mod 262144 = 4096 * (n div 4096 mod 64) + n mod 4096"
    using mod_mult2_eq[of n 4096 64] by simp
  moreover have "n mod 4096 = 64 * (n div 64 mod 64) + n mod 64"
    using mod_mult2_eq[of n 64 64] by simp
  moreover have "n div 262144 * 262144 + n mod 262144 = n" by simp
  ultimately show ?thesis by linarith
qed

lemma surrogate_pair_code_point:
  assumes "is_high_surrogate c" "is_low_surrogate d"
  shows "0x10000 \<le> UTF16SurrogatePairToCodePoint c d"
    and "UTF16SurrogatePairToCodePoint c d < 0x110000"
    and "0xD800 + (UTF16SurrogatePairToCodePoint c d - 0x10000) div 1024 = unat c"
    and "0xDC00 + (UTF16SurrogatePairToCodePoint c d - 0x10000) mod 1024 = unat d"
proof -
  from assms have c: "0xD800 \<le> unat c" "unat c \<le> 0xDBFF" and d: "0xDC00 \<le> unat d" "unat d \<le> 0xDFFF"
    by (simp_all add: is_high_surrogate_def is_low_surrogate_def le16)
  define h l where "h = unat c - 0xD800" and "l = unat d - 0xDC00"
  with c d have hl: "h < 1024" "l < 1024" "unat c = 0xD800 + h" "unat d = 0xDC00 + l" by simp_all
  have cp: "UTF16SurrogatePairToCodePoint c d = h * 1024 + l + 0x10000"
    by (simp add: UTF16SurrogatePairToCodePoint_def h_def l_def)
  from hl show "0x10000 \<le> UTF16SurrogatePairToCodePoint c d"
    and "UTF16SurrogatePairToCodePoint c d < 0x110000"
    and "0xD800 + (UTF16SurrogatePairToCodePoint c d - 0x10000) div 1024 = unat c"
    and "0xDC00 + (UTF16SurrogatePairToCodePoint c d - 0x10000) mod 1024 = unat d"
    by (simp_all add: cp)
qed

lemma UTF8_decode_pair:
  assumes "is_high_surrogate c" "is_low_surrogate d"
  shows "UTF8_decode (UTF8_octets (UTF16SurrogatePairToCodePoint c d) @ bs) =
     (case UTF8_decode bs of None \<Rightarrow> None | Some s \<Rightarrow> Some (c # d # s))"
proof -
  let ?n = "UTF16SurrogatePairToCodePoint c d"
  note cp = surrogate_pair_code_point[OF assms]
  from cp(2) have d: "?n div 262144 < 8" by simp
  have v: "(0xF0 + ?n div 262144 - 0xF0) * 262144 + (0x80 + ?n div 4096 mod 64 - 0x80) * 4096 +
           (0x80 + ?n div 64 mod 64 - 0x80) * 64 + (0x80 + ?n mod 64 - 0x80) = ?n"
    using split_262144[of ?n] by simp
  have "UTF8_decode ((0xF0 + ?n div 262144) # (0x80 + ?n div 4096 mod 64) #
                     (0x80 + ?n div 64 mod 64) # (0x80 + ?n mod 64) # bs) =
       (case UTF8_decode bs of None \<Rightarrow> None
        | Some s \<Rightarrow> Some (of_nat (0xD800 + (?n - 0x10000) div 1024) #
                          of_nat (0xDC00 + (?n - 0x10000) mod 1024) # s))"
    by (intro UTF8_decode_4)
       (use d cp(1,2) split_262144[of ?n] in \<open>simp_all add: is_continuation_def\<close>)
  moreover have "UTF8_octets ?n = [0xF0 + ?n div 262144, 0x80 + ?n div 4096 mod 64,
                     0x80 + ?n div 64 mod 64, 0x80 + ?n mod 64]"
    using cp(1) by (simp add: UTF8_octets_def)
  ultimately show ?thesis
    by (simp only: cp(3,4) of_nat_unat) (simp split: option.split)
qed

lemma encodeURIComponent_bytes:
  "encodeURIComponent s = Inr u \<Longrightarrow>
   \<exists>bs. unescape u = map of_nat bs \<and> (\<forall>b\<in>set bs. b < 256) \<and> UTF8_decode bs = Some s"
proof (induction s arbitrary: u rule: encodeURIComponent.induct)
  case 1
  then show ?case by (intro exI[of _ "[]"]) simp
next
  case (2 c s)
  show ?case
  proof (cases "uriUnescaped c")
    case True
    with "2.prems" obtain r where r: "encodeURIComponent s = Inr r" and u: "u = c # r"
      by (auto split: sum.splits)
    from "2.IH"(1)[OF True r] obtain bs where bs: "unescape r = map of_nat bs"
      "\<forall>b\<in>set bs. b < 256" "UTF8_decode bs = Some s" by blast
    note f = uriUnescaped_facts[OF True]
    show ?thesis
      apply (rule exI[of _ "unat c # bs"])
      using bs f u by (simp del: unescape.simps add: unescape_plain)
  next
    case False
    note nu = False
    show ?thesis
    proof (cases "is_low_surrogate c")
      case True
      with nu "2.prems" show ?thesis by simp
    next
      case False
      note nl = False
      show ?thesis
      proof (cases "is_high_surrogate c")
        case True
        with nu nl "2.prems" obtain d s' r where s: "s = d # s'" and d: "is_low_surrogate d"
          and r: "encodeURIComponent s' = Inr r"
          and u: "u = percent_code_point (UTF16SurrogatePairToCodePoint c d) @ r"
          by (auto split: list.splits if_splits sum.splits)
        from "2.IH"(2)[OF nu nl True s d r] obtain bs where bs: "unescape r = map of_nat bs"
          "\<forall>b\<in>set bs. b < 256" "UTF8_decode bs = Some s'" by blast
        let ?os = "UTF8_octets (UTF16SurrogatePairToCodePoint c d)"
        from surrogate_pair_code_point(2)[OF True d] have os: "\<forall>b\<in>set ?os. b < 256"
          by (rule UTF8_octets_bytes)
        show ?thesis
          apply (rule exI[of _ "?os @ bs"])
          using bs os u s
          by (auto simp del: unescape.simps
              simp add: percent_code_point_def unescape_percent_octets UTF8_decode_pair[OF True d])
      next
        case False
        with nu nl "2.prems" obtain r where r: "encodeURIComponent s = Inr r"
          and u: "u = percent_code_point (unat c) @ r"
          by (auto split: sum.splits)
        from "2.IH"(3)[OF nu nl False r] obtain bs where bs: "unescape r = map of_nat bs"
          "\<forall>b\<in>set bs. b < 256" "UTF8_decode bs = Some s" by blast
        let ?os = "UTF8_octets (unat c)"
        have "unat c < 0x110000" using unsigned_less[of c, where 'a=nat] by simp
        then have os: "\<forall>b\<in>set ?os. b < 256" by (rule UTF8_octets_bytes)
        show ?thesis
          apply (rule exI[of _ "?os @ bs"])
          using bs os u
          by (auto simp del: unescape.simps
              simp add: percent_code_point_def unescape_percent_octets UTF8_decode_unit[OF False nl])
      qed
    qed
  qed
qed

lemma btoa_bytes:
  assumes "\<forall>b\<in>set bs. b < 256"
  shows "btoa (map of_nat bs) = Inr (base64_encode bs)"
proof -
  from assms have "map unat (map of_nat bs :: 16 word list) = bs"
    by (induction bs) (simp_all add: unat_of_nat16)
  moreover from assms have "\<not> list_ex (\<lambda>c. 0xFF < c) (map of_nat bs :: 16 word list)"
    by (induction bs) (simp_all add: less16 unat_of_nat16)
  ultimately show ?thesis by (simp add: btoa_def)
qed

lemma encodedContent_roundtrip:
  assumes "encodedContent content = Inr encoded"
  shows "decode_payload encoded = Some content"
proof -
  from assms obtain u where u: "encodeURIComponent content = Inr u" and e: "btoa (unescape u) = Inr encoded"
    by (auto simp: encodedContent_def split: sum.splits)
  from encodeURIComponent_bytes[OF u] obtain bs where bs: "unescape u = map of_nat bs"
    "\<forall>b\<in>set bs. b < 256" "UTF8_decode bs = Some content" by blast
  from e bs(1) btoa_bytes[OF bs(2)] have "encoded = base64_encode bs" by simp
  with base64_roundtrip[OF bs(2)] bs(3) show ?thesis by (simp add: decode_payload_def)
qed

section \<open>The claims\<close>

text \<open>
  Claim C2. Where the store has no value under \<open>leethub_token\<close>, the run fails with
  the thrown \<open>Error('leethub token is undefined')\<close> and leaves the world as it was: the
  trace of requests has not grown, so no request of any kind has been issued.
\<close>

theorem missing_token_fails_before_any_request:
  assumes "local_storage w (ascii ''leethub_token'') = None"
  shows "commitSolutionFiles net getAndInitializeStats params w =
           (Inl (Error (ascii ''leethub token is undefined'')), w) \<and>
         trace (snd (commitSolutionFiles net getAndInitializeStats params w)) = trace w"
  using assms by (simp add: commitSolutionFiles_unfold stored_token_def)

text \<open>The signed-out store of the example has no token, and the run there fails at once.\<close>

theorem missing_token_fails_before_any_request_witness:
  "local_storage signed_out_world (ascii ''leethub_token'') = None \<and>
   commitSolutionFiles example_remote example_stats example_params signed_out_world =
     (Inl (Error (ascii ''leethub token is undefined'')), signed_out_world) \<and>
   trace (snd (commitSolutionFiles example_remote example_stats example_params signed_out_world)) = []"
  using missing_token_fails_before_any_request
          [of signed_out_world example_remote example_stats example_params]
  by (simp add: signed_out_world_def)

text \<open>
  Claim C10. The check of line 138 is a test for falsiness: with the empty string, the
  number zero, \<open>false\<close>, \<open>null\<close> or \<open>undefined\<close> stored under
  \<open>leethub_token\<close>, the run fails with the same error as for an absent key, and
  issues no request.
\<close>

theorem falsy_token_fails_like_missing_token:
  assumes "local_storage w (ascii ''leethub_token'') = Some v"
    and "v \<in> {JStr [], JNum 0, JBool False, JNull, JUndefined}"
  shows "commitSolutionFiles net getAndInitializeStats params w =
           (Inl (Error (ascii ''leethub token is undefined'')), w) \<and>
         trace (snd (commitSolutionFiles net getAndInitializeStats params w)) = trace w"
  using assms by (auto simp: commitSolutionFiles_unfold stored_token_def)

text \<open>A store that holds the empty string as token.\<close>

theorem falsy_token_fails_like_missing_token_witness:
  "local_storage empty_token_world (ascii ''leethub_token'') = Some (JStr []) \<and>
   commitSolutionFiles example_remote example_stats example_params empty_token_world =
     (Inl (Error (ascii ''leethub token is undefined'')), empty_token_world) \<and>
   trace (snd (commitSolutionFiles example_remote example_stats example_params empty_token_world)) = []"
  using falsy_token_fails_like_missing_token
          [of empty_token_world "JStr []" example_remote example_stats example_params]
  by (simp add: empty_token_world_def)

text \<open>
  Claim C9. Two inputs that agree on every field but \<open>difficulty\<close> give the same run:
  the same result and the same final world, that is, the same requests (method, URL,
  headers and body, the commit message included) in the same order and the same store.
\<close>

theorem difficulty_is_never_read:
  assumes "p_repo p = p_repo q" and "p_branch p = p_branch q"
    and "p_problemName p = p_problemName q" and "p_directory p = p_directory q"
    and "p_files p = p_files q" and "p_commitMsg p = p_commitMsg q"
  shows "commitSolutionFiles net getAndInitializeStats p w =
         commitSolutionFiles net getAndInitializeStats q w"
  unfolding commitSolutionFiles_def assms by (rule refl)

text \<open>The example with difficulty \<open>Hard\<close> in place of \<open>Easy\<close>.\<close>

theorem difficulty_is_never_read_witness:
  "commitSolutionFiles example_remote example_stats (example_params\<lparr>p_difficulty := ascii ''Hard''\<rparr>)
     example_world =
   commitSolutionFiles example_remote example_stats example_params example_world \<and>
   p_difficulty (example_params\<lparr>p_difficulty := ascii ''Hard''\<rparr>) \<noteq> p_difficulty example_params"
  using difficulty_is_never_read
          [of "example_params\<lparr>p_difficulty := ascii ''Hard''\<rparr>" example_params
              example_remote example_stats example_world]
  by (simp add: example_params_def ascii_def)

text \<open>
  Claim C8, as the code has it. \<open>createBlob\<close> does not encode: it issues one request
  whose body is the JSON text of an object with the argument \<open>content\<close> unchanged as
  \<open>content\<close> and \<open>base64\<close> as \<open>encoding\<close>. The encoding is done by the caller:
  in every run of \<open>commitSolutionFiles\<close>, whatever its outcome, each request sent to
  the blobs endpoint of the repository is the request of \<open>createBlob\<close> for the value
  of \<open>btoa(unescape(encodeURIComponent(content)))\<close> of one of the input files.
\<close>

theorem createBlob_sends_content_as_given:
  assumes "commitSolutionFiles net getAndInitializeStats params w = (r, w')"
  shows "trace (snd (createBlob net repo content token v)) =
           trace v @ [createBlob_request repo content token] \<and>
         r_body (createBlob_request repo content token) =
           JSON_stringify (JObj [(ascii ''content'', JStr content),
                                 (ascii ''encoding'', JStr (ascii ''base64''))]) \<and>
         (\<exists>rs. trace w' = trace w @ rs \<and>
            (\<forall>q\<in>set rs. r_url q = api @ p_repo params @ ascii ''/git/blobs'' \<longrightarrow>
               (\<exists>file\<in>set (p_files params). \<exists>escaped encoded.
                   encodeURIComponent (f_content file) = Inr escaped \<and>
                   btoa (unescape escaped) = Inr encoded \<and>
                   q = createBlob_request (p_repo params) encoded (stored_token w))))"
proof -
  from run_blob_requests[OF assms] obtain rs where rs: "trace w' = trace w @ rs"
    "\<forall>q\<in>set rs. r_url q = api @ p_repo params @ ascii ''/git/blobs'' \<longrightarrow>
       (\<exists>file\<in>set (p_files params). \<exists>encoded.
           encodedContent (f_content file) = Inr encoded \<and>
           q = createBlob_request (p_repo params) encoded (stored_token w))"
    by blast
  have split: "\<exists>escaped. encodeURIComponent c = Inr escaped \<and> btoa (unescape escaped) = Inr encoded"
    if "encodedContent c = Inr encoded" for c encoded
    using that by (auto simp: encodedContent_def split: sum.splits)
  have "\<forall>q\<in>set rs. r_url q = api @ p_repo params @ ascii ''/git/blobs'' \<longrightarrow>
       (\<exists>file\<in>set (p_files params). \<exists>escaped encoded.
           encodeURIComponent (f_content file) = Inr escaped \<and>
           btoa (unescape escaped) = Inr encoded \<and>
           q = createBlob_request (p_repo params) encoded (stored_token w))"
  proof (intro ballI impI)
    fix q assume "q \<in> set rs" "r_url q = api @ p_repo params @ ascii ''/git/blobs''"
    with rs(2) obtain g encoded where g: "g \<in> set (p_files params)"
      "encodedContent (f_content g) = Inr encoded"
      "q = createBlob_request (p_repo params) encoded (stored_token w)"
      by blast
    from split[OF g(2)] obtain escaped where
      "encodeURIComponent (f_content g) = Inr escaped" "btoa (unescape escaped) = Inr encoded"
      by blast
    with g(1,3) show "\<exists>file\<in>set (p_files params). \<exists>escaped encoded.
           encodeURIComponent (f_content file) = Inr escaped \<and>
           btoa (unescape escaped) = Inr encoded \<and>
           q = createBlob_request (p_repo params) encoded (stored_token w)"
      by blast
  qed
  with rs(1) have "\<exists>rs. trace w' = trace w @ rs \<and>
            (\<forall>q\<in>set rs. r_url q = api @ p_repo params @ ascii ''/git/blobs'' \<longrightarrow>
               (\<exists>file\<in>set (p_files params). \<exists>escaped encoded.
                   encodeURIComponent (f_content file) = Inr escaped \<and>
                   btoa (unescape escaped) = Inr encoded \<and>
                   q = createBlob_request (p_repo params) encoded (stored_token w)))"
    by blast
  then show ?thesis by (simp add: createBlob_eq createBlob_request_def)
qed

text \<open>
  The run of the example, and \<open>createBlob\<close> called on the already encoded content of
  its first file.
\<close>

theorem createBlob_sends_content_as_given_witness:
  "commitSolutionFiles example_remote example_stats example_params example_world =
     (Inr (JStr (ascii ''c0ffee'')), example_outcome) \<and>
   trace (snd (createBlob example_remote (ascii ''o/r'') (ascii ''IyBIaQ=='') example_token
                 example_world)) =
     trace example_world @ [createBlob_request (ascii ''o/r'') (ascii ''IyBIaQ=='') example_token] \<and>
   r_body (createBlob_request (ascii ''o/r'') (ascii ''IyBIaQ=='') example_token) =
     JSON_stringify (JObj [(ascii ''content'', JStr (ascii ''IyBIaQ=='')),
                           (ascii ''encoding'', JStr (ascii ''base64''))]) \<and>
   (\<exists>rs. trace example_outcome = trace example_world @ rs \<and>
      (\<forall>q\<in>set rs. r_url q = api @ p_repo example_params @ ascii ''/git/blobs'' \<longrightarrow>
         (\<exists>file\<in>set (p_files example_params). \<exists>escaped encoded.
             encodeURIComponent (f_content file) = Inr escaped \<and>
             btoa (unescape escaped) = Inr encoded \<and>
             q = createBlob_request (p_repo example_params) encoded (stored_token example_world))))"
  by (rule conjI[OF example_run
        createBlob_sends_content_as_given[OF example_run,
          where repo = "ascii ''o/r''" and content = "ascii ''IyBIaQ==''" and token = example_token
            and v = example_world]])

text \<open>
  Claim C8 as stated fails: for the content \<open>a\<close>, whose base64 form is \<open>YQ==\<close>,
  the body that \<open>createBlob\<close> sends carries \<open>a\<close>, not \<open>YQ==\<close>.
\<close>

theorem createBlob_encodes_content_counterexample:
  "btoa (ascii ''a'') = Inr (ascii ''YQ=='') \<and>
   trace (snd (createBlob example_remote (ascii ''o/r'') (ascii ''a'') example_token example_world)) =
     [createBlob_request (ascii ''o/r'') (ascii ''a'') example_token] \<and>
   r_body (createBlob_request (ascii ''o/r'') (ascii ''a'') example_token) \<noteq>
     JSON_stringify (JObj [(ascii ''content'', JStr (ascii ''YQ=='')),
                           (ascii ''encoding'', JStr (ascii ''base64''))])"
  by (simp add: createBlob_eq example_world_def createBlob_request_def JSON_stringify_def
      QuoteJSONString_def quote_unit_def is_high_surrogate_def is_low_surrogate_def
      btoa_def base64_char_def ascii_def)

text \<open>
  Claim C3. A run that returns has issued, after what the trace held before: the read of
  the reference; one blob creation per input file, in the order of the input list, each
  carrying the encoded content of its file; the read of the commit; one tree creation;
  one commit creation; one update of the reference. Nothing else, and in this order, so
  all blob creations come before the tree creation.
\<close>

theorem successful_run_trace:
  assumes "commitSolutionFiles net getAndInitializeStats params w = (Inr result, w')"
  shows "\<exists>encs tip base entries newTree.
     length encs = length (p_files params) \<and>
     (\<forall>i<length (p_files params). encodedContent (f_content (p_files params ! i)) = Inr (encs ! i)) \<and>
     trace w' =
       trace w @
       [getLatestCommitSHA_request (p_repo params) (p_branch params) (stored_token w)] @
       map (\<lambda>encoded. createBlob_request (p_repo params) encoded (stored_token w)) encs @
       [commit_read_request (p_repo params) tip (stored_token w),
        createTree_request (p_repo params) base entries (stored_token w),
        createCommit_request (p_repo params) (p_commitMsg params) newTree tip (stored_token w),
        updateRef_request (p_repo params) (p_branch params) result (stored_token w)]"
proof -
  from successful_run[OF assms] obtain tip encs shas base newTree where
    "length encs = length (p_files params)"
    "\<forall>i<length (p_files params). encodedContent (f_content (p_files params ! i)) = Inr (encs ! i)"
    "trace w' = trace w @ getLatestCommitSHA_request (p_repo params) (p_branch params) (stored_token w) #
                 map (\<lambda>e. createBlob_request (p_repo params) e (stored_token w)) encs @
                 [commit_read_request (p_repo params) tip (stored_token w),
                  createTree_request (p_repo params) base
                    (map2 (\<lambda>f s. fileEntry (p_directory params @ ascii ''/'' @ f_filename f) s)
                       (p_files params) shas)
                    (stored_token w),
                  createCommit_request (p_repo params) (p_commitMsg params) newTree tip (stored_token w),
                  updateRef_request (p_repo params) (p_branch params) result (stored_token w)]"
    by blast
  then show ?thesis by auto
qed

text \<open>The run of the example returns, and its trace has this shape.\<close>

theorem successful_run_trace_witness:
  "commitSolutionFiles example_remote example_stats example_params example_world =
     (Inr (JStr (ascii ''c0ffee'')), example_outcome) \<and>
   (\<exists>encs tip base entries newTree.
     length encs = length (p_files example_params) \<and>
     (\<forall>i<length (p_files example_params).
        encodedContent (f_content (p_files example_params ! i)) = Inr (encs ! i)) \<and>
     trace example_outcome =
       trace example_world @
       [getLatestCommitSHA_request (p_repo example_params) (p_branch example_params)
          (stored_token example_world)] @
       map (\<lambda>encoded. createBlob_request (p_repo example_params) encoded (stored_token example_world))
         encs @
       [commit_read_request (p_repo example_params) tip (stored_token example_world),
        createTree_request (p_repo example_params) base entries (stored_token example_world),
        createCommit_request (p_repo example_params) (p_commitMsg example_params) newTree tip
          (stored_token example_world),
        updateRef_request (p_repo example_params) (p_branch example_params) (JStr (ascii ''c0ffee''))
          (stored_token example_world)])"
  by (rule conjI[OF example_run successful_run_trace[OF example_run]])

text \<open>
  Claim C4. In a run that returns, the body of the commit creation is the JSON text of an
  object whose \<open>parents\<close> is the one-element array holding the SHA that the answer to
  the first request of the run, the read of the reference, carried. No request between
  that read and the commit creation reads a reference of the repository again.
\<close>

theorem commit_parent_is_tip_read_at_start:
  assumes "commitSolutionFiles net getAndInitializeStats params w = (Inr result, w')"
  shows "\<exists>tip between newTree.
     answer net (trace w @ [getLatestCommitSHA_request (p_repo params) (p_branch params) (stored_token w)])
       [ascii ''object'', ascii ''sha''] = Inr tip \<and>
     trace w' =
       trace w @
       [getLatestCommitSHA_request (p_repo params) (p_branch params) (stored_token w)] @
       between @
       [createCommit_request (p_repo params) (p_commitMsg params) newTree tip (stored_token w),
        updateRef_request (p_repo params) (p_branch params) result (stored_token w)] \<and>
     r_body (createCommit_request (p_repo params) (p_commitMsg params) newTree tip (stored_token w)) =
       JSON_stringify (JObj [(ascii ''message'', JStr (p_commitMsg params)),
                             (ascii ''tree'', newTree),
                             (ascii ''parents'', JArr [tip])]) \<and>
     (\<forall>q\<in>set between. \<forall>branch token.
        q \<noteq> getLatestCommitSHA_request (p_repo params) branch token)"
proof -
  let ?t = "stored_token w"
  from successful_run[OF assms] obtain tip encs shas base newTree where a:
    "answer net (trace w @ [getLatestCommitSHA_request (p_repo params) (p_branch params) ?t])
       [ascii ''object'', ascii ''sha''] = Inr tip"
    "trace w' = trace w @ getLatestCommitSHA_request (p_repo params) (p_branch params) ?t #
                 map (\<lambda>e. createBlob_request (p_repo params) e ?t) encs @
                 [commit_read_request (p_repo params) tip ?t,
                  createTree_request (p_repo params) base
                    (map2 (\<lambda>f s. fileEntry (p_directory params @ ascii ''/'' @ f_filename f) s)
                       (p_files params) shas) ?t,
                  createCommit_request (p_repo params) (p_commitMsg params) newTree tip ?t,
                  updateRef_request (p_repo params) (p_branch params) result ?t]"
    by blast
  let ?between = "map (\<lambda>e. createBlob_request (p_repo params) e ?t) encs @
                 [commit_read_request (p_repo params) tip ?t,
                  createTree_request (p_repo params) base
                    (map2 (\<lambda>f s. fileEntry (p_directory params @ ascii ''/'' @ f_filename f) s)
                       (p_files params) shas) ?t]"
  have url: "r_url (commit_read_request repo sha token') \<noteq>
             r_url (getLatestCommitSHA_request repo branch token)" for repo sha token' branch token
    by (simp add: commit_read_request_def getLatestCommitSHA_request_def ascii_def)
  have "\<forall>q\<in>set ?between. \<forall>branch token. q \<noteq> getLatestCommitSHA_request (p_repo params) branch token"
  proof (intro ballI allI)
    fix q branch token assume "q \<in> set ?between"
    then consider "r_method q = POST" | sha token' where "q = commit_read_request (p_repo params) sha token'"
      by (auto simp: request_methods)
    then show "q \<noteq> getLatestCommitSHA_request (p_repo params) branch token"
    proof cases
      case 1
      then show ?thesis by (auto simp: request_methods)
    next
      case 2
      with url[of "p_repo params" sha token' branch token] show ?thesis by auto
    qed
  qed
  moreover have "r_body (createCommit_request (p_repo params) (p_commitMsg params) newTree tip ?t) =
       JSON_stringify (JObj [(ascii ''message'', JStr (p_commitMsg params)),
                             (ascii ''tree'', newTree),
                             (ascii ''parents'', JArr [tip])])"
    by (simp add: createCommit_request_def)
  ultimately show ?thesis
    apply -
    apply (rule exI[of _ tip], rule exI[of _ ?between], rule exI[of _ newTree])
    using a by simp
qed

text \<open>The run of the example returns; its commit creation names the tip read first.\<close>

theorem commit_parent_is_tip_read_at_start_witness:
  "commitSolutionFiles example_remote example_stats example_params example_world =
     (Inr (JStr (ascii ''c0ffee'')), example_outcome) \<and>
   (\<exists>tip between newTree.
     answer example_remote
       (trace example_world @
        [getLatestCommitSHA_request (p_repo example_params) (p_branch example_params)
           (stored_token example_world)])
       [ascii ''object'', ascii ''sha''] = Inr tip \<and>
     trace example_outcome =
       trace example_world @
       [getLatestCommitSHA_request (p_repo example_params) (p_branch example_params)
          (stored_token example_world)] @
       between @
       [createCommit_request (p_repo example_params) (p_commitMsg example_params) newTree tip
          (stored_token example_world),
        updateRef_request (p_repo example_params) (p_branch example_params) (JStr (ascii ''c0ffee''))
          (stored_token example_world)] \<and>
     r_body (createCommit_request (p_repo example_params) (p_commitMsg example_params) newTree tip
               (stored_token example_world)) =
       JSON_stringify (JObj [(ascii ''message'', JStr (p_commitMsg example_params)),
                             (ascii ''tree'', newTree),
                             (ascii ''parents'', JArr [tip])]) \<and>
     (\<forall>q\<in>set between. \<forall>branch token.
        q \<noteq> getLatestCommitSHA_request (p_repo example_params) branch token))"
  by (rule conjI[OF example_run commit_parent_is_tip_read_at_start[OF example_run]])

text \<open>
  Claim C7. In a run that returns, \<open>getAndInitializeStats\<close> has resolved to a stats
  record for the problem name, and the record kept under the key \<open>stats\<close> afterwards
  is that record with \<open>lastCommitSha\<close> set to the returned SHA.
\<close>

theorem stats_record_has_returned_sha:
  assumes "commitSolutionFiles net getAndInitializeStats params w = (Inr result, w')"
  shows "\<exists>stats st record.
     getAndInitializeStats (p_problemName params) (local_storage w) = (Some stats, st) \<and>
     record = JObj (set_prop stats (ascii ''lastCommitSha'') result) \<and>
     local_storage w' = st(ascii ''stats'' \<mapsto> record) \<and>
     local_storage w' (ascii ''stats'') = Some record \<and>
     get_prop record (ascii ''lastCommitSha'') = Inr result"
proof -
  from successful_run[OF assms] obtain stats st where
    "getAndInitializeStats (p_problemName params) (local_storage w) = (Some stats, st)"
    "local_storage w' = st(ascii ''stats'' \<mapsto> JObj (set_prop stats (ascii ''lastCommitSha'') result))"
    by blast
  then show ?thesis by (simp add: map_of_set_prop)
qed

text \<open>The store after the run of the example.\<close>

theorem stats_record_has_returned_sha_witness:
  "commitSolutionFiles example_remote example_stats example_params example_world =
     (Inr (JStr (ascii ''c0ffee'')), example_outcome) \<and>
   (\<exists>stats st record.
     example_stats (p_problemName example_params) (local_storage example_world) = (Some stats, st) \<and>
     record = JObj (set_prop stats (ascii ''lastCommitSha'') (JStr (ascii ''c0ffee''))) \<and>
     local_storage example_outcome = st(ascii ''stats'' \<mapsto> record) \<and>
     local_storage example_outcome (ascii ''stats'') = Some record \<and>
     get_prop record (ascii ''lastCommitSha'') = Inr (JStr (ascii ''c0ffee'')))"
  by (rule conjI[OF example_run stats_record_has_returned_sha[OF example_run]])

text \<open>
  Claim C5, as the code has it. When the \<open>fetch\<close> of a request of the run rejects, the
  run fails with that rejection, the rejected request is the last one issued, the store
  is not written, and no request before it is the update of the reference (the one
  request with method PATCH). So a rejection at any step before the update of the
  reference leaves no such update issued. A rejection of the update itself is propagated
  in the same way, the request having been issued.
\<close>

theorem rejected_fetch_ends_run_before_later_requests:
  assumes "commitSolutionFiles net getAndInitializeStats params w = (r, w')"
  shows "\<exists>rs. trace w' = trace w @ rs \<and>
           (\<forall>k<length rs. net (trace w @ take (Suc k) rs) = Rejected \<longrightarrow>
               r = Inl FetchFailed \<and> Suc k = length rs \<and> local_storage w' = local_storage w \<and>
               (\<forall>q\<in>set (take k rs). r_method q \<noteq> PATCH) \<and>
               (r_method (rs ! k) \<noteq> PATCH \<longrightarrow> (\<forall>q\<in>set rs. r_method q \<noteq> PATCH)))"
proof -
  from run_requests[OF assms] obtain rs where rs: "trace w' = trace w @ rs"
    "\<forall>q\<in>set (butlast rs). r_method q \<noteq> PATCH"
    "\<forall>k<length rs. net (trace w @ take (Suc k) rs) = Rejected \<longrightarrow>
               r = Inl FetchFailed \<and> Suc k = length rs \<and> local_storage w' = local_storage w"
    by blast
  have "r = Inl FetchFailed \<and> Suc k = length rs \<and> local_storage w' = local_storage w \<and>
               (\<forall>q\<in>set (take k rs). r_method q \<noteq> PATCH) \<and>
               (r_method (rs ! k) \<noteq> PATCH \<longrightarrow> (\<forall>q\<in>set rs. r_method q \<noteq> PATCH))"
    if k: "k < length rs" and rej: "net (trace w @ take (Suc k) rs) = Rejected" for k
  proof -
    from rs(3) k rej have 1: "r = Inl FetchFailed" "Suc k = length rs" "local_storage w' = local_storage w"
      by auto
    from 1(2) have kl: "k = length rs - 1" and ne: "rs \<noteq> []" by auto
    then have bl: "take k rs = butlast rs" by (simp add: butlast_conv_take)
    from kl ne have la: "last rs = rs ! k" by (simp add: last_conv_nth)
    have "r_method q \<noteq> PATCH" if "r_method (rs ! k) \<noteq> PATCH" "q \<in> set rs" for q
      using in_set_butlast_or_last[OF that(2)] rs(2) that(1) la by auto
    with rs(2) bl 1 show ?thesis by simp
  qed
  with rs(1) show ?thesis by blast
qed

text \<open>The run of the example against the remote that drops the update of the reference.\<close>

theorem rejected_fetch_ends_run_before_later_requests_witness:
  "commitSolutionFiles dropping_remote example_stats example_params example_world =
     (Inl FetchFailed, example_world\<lparr>trace := example_requests\<rparr>) \<and>
   dropping_remote (trace example_world @ take (Suc 6) example_requests) = Rejected \<and>
   (\<exists>rs. trace (example_world\<lparr>trace := example_requests\<rparr>) = trace example_world @ rs \<and>
           (\<forall>k<length rs. dropping_remote (trace example_world @ take (Suc k) rs) = Rejected \<longrightarrow>
               (Inl FetchFailed :: error + jsval) = Inl FetchFailed \<and> Suc k = length rs \<and>
               local_storage (example_world\<lparr>trace := example_requests\<rparr>) = local_storage example_world \<and>
               (\<forall>q\<in>set (take k rs). r_method q \<noteq> PATCH) \<and>
               (r_method (rs ! k) \<noteq> PATCH \<longrightarrow> (\<forall>q\<in>set rs. r_method q \<noteq> PATCH))))"
proof -
  have "dropping_remote (trace example_world @ take (Suc 6) example_requests) = Rejected"
    by (simp add: dropping_remote_def example_remote_with_def example_requests_def request_methods
        example_world_def)
  then show ?thesis
    by (intro conjI dropped_run rejected_fetch_ends_run_before_later_requests[OF dropped_run])
qed

text \<open>
  Claim C5 as stated fails at the last step: when the \<open>fetch\<close> of the update of the
  reference itself rejects, the run fails with that rejection, and the request for the
  update is the last request it has issued.
\<close>

theorem rejected_update_is_issued_counterexample:
  "dropping_remote (trace (snd (commitSolutionFiles dropping_remote example_stats example_params
      example_world))) = Rejected \<and>
   fst (commitSolutionFiles dropping_remote example_stats example_params example_world) =
     Inl FetchFailed \<and>
   last (trace (snd (commitSolutionFiles dropping_remote example_stats example_params example_world))) =
     updateRef_request (ascii ''o/r'') (ascii ''main'') (JStr (ascii ''c0ffee'')) example_token"
proof -
  have "dropping_remote example_requests = Rejected"
    by (simp add: dropping_remote_def example_remote_with_def example_last)
  moreover have "last example_requests =
      updateRef_request (ascii ''o/r'') (ascii ''main'') (JStr (ascii ''c0ffee'')) example_token"
    by (simp add: example_requests_def)
  ultimately show ?thesis by (simp add: dropped_run)
qed

text \<open>
  Claim C6. In a run that has issued the update of the reference, the body of that
  request is the JSON text of an object with the single property \<open>sha\<close>, so no
  \<open>force\<close>. Whatever the answer, as long as the \<open>fetch\<close> resolves (any status, any
  body, so also a refusal), and \<open>getAndInitializeStats\<close> resolves, the run returns the
  SHA it asked the reference to be moved to, and the record under \<open>stats\<close> holds it
  as \<open>lastCommitSha\<close>.
\<close>

theorem unchecked_update_answer_still_records:
  assumes "commitSolutionFiles net getAndInitializeStats params w = (r, w')"
    and "trace w' = trace w @ rs @ [u]" and "r_method u = PATCH"
    and "net (trace w') = Resolved res"
    and "getAndInitializeStats (p_problemName params) (local_storage w) = (Some stats, st)"
  shows "\<exists>sha. u = updateRef_request (p_repo params) (p_branch params) sha (stored_token w) \<and>
           r_body u = JSON_stringify (JObj [(ascii ''sha'', sha)]) \<and>
           r = Inr sha \<and>
           local_storage w' = st(ascii ''stats'' \<mapsto> JObj (set_prop stats (ascii ''lastCommitSha'') sha))"
  using run_cases[OF assms(1)]
proof (elim disjE[of "\<not> truthy (stored_token w) \<and> _"] disjE[of "\<exists>e. _ e"] exE conjE)
  assume "w' = w"
  with assms(2) show ?thesis by simp
next
  fix e assume b: "build_commit net params (stored_token w) w = (Inl e, w')"
  from build_commit_orderly[OF b] obtain rs' where "trace w' = trace w @ rs'"
    "\<forall>q\<in>set rs'. r_method q \<noteq> PATCH" by blast
  with assms(2,3) show ?thesis by auto
next
  fix tip new and w1 :: world
  assume t: "trace w' = trace w1 @ [updateRef_request (p_repo params) (p_branch params) new (stored_token w)]"
    and after: "net (trace w') = Rejected \<and> r = Inl FetchFailed \<and> local_storage w' = local_storage w \<or>
             (\<exists>res st. net (trace w') = Resolved res \<and>
                getAndInitializeStats (p_problemName params) (local_storage w) = (None, st) \<and> r = Inl StatsError \<and>
                local_storage w' = st) \<or>
             (\<exists>res stats st. net (trace w') = Resolved res \<and>
                getAndInitializeStats (p_problemName params) (local_storage w) = (Some stats, st) \<and> r = Inr new \<and>
                local_storage w' =
                  st(ascii ''stats'' \<mapsto> JObj (set_prop stats (ascii ''lastCommitSha'') new)))"
  from t assms(2) have u: "u = updateRef_request (p_repo params) (p_branch params) new (stored_token w)"
    by (metis append_assoc last_snoc)
  from after assms(4,5) have "r = Inr new" 
    "local_storage w' = st(ascii ''stats'' \<mapsto> JObj (set_prop stats (ascii ''lastCommitSha'') new))"
    by auto
  with u show ?thesis by (auto simp: updateRef_request_def)
qed

text \<open>The run of the example against the remote that answers the update with status 422.\<close>

theorem unchecked_update_answer_still_records_witness:
  "commitSolutionFiles refusing_remote example_stats example_params example_world =
     (Inr (JStr (ascii ''c0ffee'')), example_outcome) \<and>
   trace example_outcome = trace example_world @ butlast example_requests @ [last example_requests] \<and>
   r_method (last example_requests) = PATCH \<and>
   refusing_remote (trace example_outcome) =
     Resolved \<lparr>status = 422,
               json_body = Some (JObj [(ascii ''message'', JStr (ascii ''Update is not a fast forward''))])\<rparr> \<and>
   example_stats (p_problemName example_params) (local_storage example_world) =
     (Some [], local_storage example_world) \<and>
   (\<exists>sha. last example_requests =
            updateRef_request (p_repo example_params) (p_branch example_params) sha
              (stored_token example_world) \<and>
          r_body (last example_requests) = JSON_stringify (JObj [(ascii ''sha'', sha)]) \<and>
          (Inr (JStr (ascii ''c0ffee'')) :: error + jsval) = Inr sha \<and>
          local_storage example_outcome =
            (local_storage example_world)(ascii ''stats'' \<mapsto>
               JObj (set_prop [] (ascii ''lastCommitSha'') sha)))"
proof -
  have 1: "trace example_outcome = trace example_world @ butlast example_requests @ [last example_requests]"
    by (simp add: example_outcome_def example_world_def example_requests_def)
  have 2: "refusing_remote (trace example_outcome) =
     Resolved \<lparr>status = 422,
               json_body = Some (JObj [(ascii ''message'', JStr (ascii ''Update is not a fast forward''))])\<rparr>"
    by (simp add: refusing_remote_def example_remote_with_def example_outcome_def example_last)
  have 3: "example_stats (p_problemName example_params) (local_storage example_world) =
     (Some [], local_storage example_world)"
    by (simp add: example_stats_def example_world_def ascii_def)
  show ?thesis
    by (intro conjI refused_run 1 2 3 example_last
        unchecked_update_answer_still_records[OF refused_run 1 example_last 2 3])
qed

text \<open>
  Claim C1. In a run that returns, the tree creation carries one entry per input file, in
  the order of the input list: its \<open>path\<close> is the directory, a slash and the file name,
  its \<open>mode\<close> is \<open>100644\<close>, its \<open>type\<close> is \<open>blob\<close>, and its \<open>sha\<close> is the
  \<open>sha\<close> of the answer to the blob creation of that file. The body of that blob
  creation has as \<open>content\<close> the value of
  \<open>btoa(unescape(encodeURIComponent(content)))\<close>, which decodes (base64, then UTF-8)
  to the content of the file. The commit creation names the \<open>sha\<close> of the answer to the
  tree creation as its tree, and the run returns the \<open>sha\<close> of the answer to the commit
  creation.
\<close>

theorem tree_holds_every_file_and_commit_sha_is_returned:
  assumes "commitSolutionFiles net getAndInitializeStats params w = (Inr result, w')"
  shows "\<exists>tip encs shas base newTree.
     length encs = length (p_files params) \<and> length shas = length (p_files params) \<and>
     (\<forall>i<length (p_files params).
        encodedContent (f_content (p_files params ! i)) = Inr (encs ! i) \<and>
        decode_payload (encs ! i) = Some (f_content (p_files params ! i)) \<and>
        r_body (createBlob_request (p_repo params) (encs ! i) (stored_token w)) =
          JSON_stringify (JObj [(ascii ''content'', JStr (encs ! i)),
                                (ascii ''encoding'', JStr (ascii ''base64''))]) \<and>
        answer net
          (trace w @ getLatestCommitSHA_request (p_repo params) (p_branch params) (stored_token w) #
           map (\<lambda>encoded. createBlob_request (p_repo params) encoded (stored_token w))
             (take (Suc i) encs))
          [ascii ''sha''] = Inr (shas ! i)) \<and>
     answer net
       (trace w @ [getLatestCommitSHA_request (p_repo params) (p_branch params) (stored_token w)])
       [ascii ''object'', ascii ''sha''] = Inr tip \<and>
     answer net
       (trace w @ getLatestCommitSHA_request (p_repo params) (p_branch params) (stored_token w) #
        map (\<lambda>encoded. createBlob_request (p_repo params) encoded (stored_token w)) encs @
        [commit_read_request (p_repo params) tip (stored_token w)])
       [ascii ''tree'', ascii ''sha''] = Inr base \<and>
     r_body (createTree_request (p_repo params) base
           (map2 (\<lambda>file blobSha.
                    JObj [(ascii ''path'', JStr (p_directory params @ ascii ''/'' @ f_filename file)),
                          (ascii ''mode'', JStr (ascii ''100644'')),
                          (ascii ''type'', JStr (ascii ''blob'')),
                          (ascii ''sha'', blobSha)])
              (p_files params) shas)
           (stored_token w)) =
       JSON_stringify
         (JObj [(ascii ''base_tree'', base),
                (ascii ''tree'',
                 JArr (map2 (\<lambda>file blobSha.
                    JObj [(ascii ''path'', JStr (p_directory params @ ascii ''/'' @ f_filename file)),
                          (ascii ''mode'', JStr (ascii ''100644'')),
                          (ascii ''type'', JStr (ascii ''blob'')),
                          (ascii ''sha'', blobSha)])
              (p_files params) shas))]) \<and>
     r_body (createCommit_request (p_repo params) (p_commitMsg params) newTree tip (stored_token w)) =
       JSON_stringify (JObj [(ascii ''message'', JStr (p_commitMsg params)),
                             (ascii ''tree'', newTree),
                             (ascii ''parents'', JArr [tip])]) \<and>
     answer net
       (trace w @ getLatestCommitSHA_request (p_repo params) (p_branch params) (stored_token w) #
        map (\<lambda>encoded. createBlob_request (p_repo params) encoded (stored_token w)) encs @
        [commit_read_request (p_repo params) tip (stored_token w),
         createTree_request (p_repo params) base
           (map2 (\<lambda>file blobSha.
                    JObj [(ascii ''path'', JStr (p_directory params @ ascii ''/'' @ f_filename file)),
                          (ascii ''mode'', JStr (ascii ''100644'')),
                          (ascii ''type'', JStr (ascii ''blob'')),
                          (ascii ''sha'', blobSha)])
              (p_files params) shas)
           (stored_token w)])
       [ascii ''sha''] = Inr newTree \<and>
     answer net
       (trace w @ getLatestCommitSHA_request (p_repo params) (p_branch params) (stored_token w) #
        map (\<lambda>encoded. createBlob_request (p_repo params) encoded (stored_token w)) encs @
        [commit_read_request (p_repo params) tip (stored_token w),
         createTree_request (p_repo params) base
           (map2 (\<lambda>file blobSha.
                    JObj [(ascii ''path'', JStr (p_directory params @ ascii ''/'' @ f_filename file)),
                          (ascii ''mode'', JStr (ascii ''100644'')),
                          (ascii ''type'', JStr (ascii ''blob'')),
                          (ascii ''sha'', blobSha)])
              (p_files params) shas)
           (stored_token w),
         createCommit_request (p_repo params) (p_commitMsg params) newTree tip (stored_token w)])
       [ascii ''sha''] = Inr result \<and>
     trace w' =
       trace w @ getLatestCommitSHA_request (p_repo params) (p_branch params) (stored_token w) #
       map (\<lambda>encoded. createBlob_request (p_repo params) encoded (stored_token w)) encs @
       [commit_read_request (p_repo params) tip (stored_token w),
        createTree_request (p_repo params) base
          (map2 (\<lambda>file blobSha.
                   JObj [(ascii ''path'', JStr (p_directory params @ ascii ''/'' @ f_filename file)),
                         (ascii ''mode'', JStr (ascii ''100644'')),
                         (ascii ''type'', JStr (ascii ''blob'')),
                         (ascii ''sha'', blobSha)])
             (p_files params) shas)
          (stored_token w),
        createCommit_request (p_repo params) (p_commitMsg params) newTree tip (stored_token w),
        updateRef_request (p_repo params) (p_branch params) result (stored_token w)]"
proof -
  let ?t = "stored_token w"
  let ?entries = "\<lambda>shas. map2 (\<lambda>f s. fileEntry (p_directory params @ ascii ''/'' @ f_filename f) s)
                          (p_files params) shas"
  from successful_run[OF assms] obtain tip encs shas base newTree where a:
    "length encs = length (p_files params)" "length shas = length (p_files params)"
    "answer net (trace w @ [getLatestCommitSHA_request (p_repo params) (p_branch params) ?t])
       [ascii ''object'', ascii ''sha''] = Inr tip"
    "answer net (trace w @ getLatestCommitSHA_request (p_repo params) (p_branch params) ?t #
                 map (\<lambda>e. createBlob_request (p_repo params) e ?t) encs @
                 [commit_read_request (p_repo params) tip ?t])
       [ascii ''tree'', ascii ''sha''] = Inr base"
    "\<forall>i<length (p_files params).
        encodedContent (f_content (p_files params ! i)) = Inr (encs ! i) \<and>
        answer net (trace w @ getLatestCommitSHA_request (p_repo params) (p_branch params) ?t #
                    map (\<lambda>e. createBlob_request (p_repo params) e ?t) (take (Suc i) encs))
          [ascii ''sha''] = Inr (shas ! i)"
    "answer net (trace w @ getLatestCommitSHA_request (p_repo params) (p_branch params) ?t #
                 map (\<lambda>e. createBlob_request (p_repo params) e ?t) encs @
                 [commit_read_request (p_repo params) tip ?t,
                  createTree_request (p_repo params) base (?entries shas) ?t])
       [ascii ''sha''] = Inr newTree"
    "answer net (trace w @ getLatestCommitSHA_request (p_repo params) (p_branch params) ?t #
                 map (\<lambda>e. createBlob_request (p_repo params) e ?t) encs @
                 [commit_read_request (p_repo params) tip ?t,
                  createTree_request (p_repo params) base (?entries shas) ?t,
                  createCommit_request (p_repo params) (p_commitMsg params) newTree tip ?t])
       [ascii ''sha''] = Inr result"
    "trace w' = trace w @ getLatestCommitSHA_request (p_repo params) (p_branch params) ?t #
                 map (\<lambda>e. createBlob_request (p_repo params) e ?t) encs @
                 [commit_read_request (p_repo params) tip ?t,
                  createTree_request (p_repo params) base (?entries shas) ?t,
                  createCommit_request (p_repo params) (p_commitMsg params) newTree tip ?t,
                  updateRef_request (p_repo params) (p_branch params) result ?t]"
    by blast
  have tree_body: "r_body (createTree_request repo b es token) =
          JSON_stringify (JObj [(ascii ''base_tree'', b), (ascii ''tree'', JArr es)])" for repo b es token
    by (simp add: createTree_request_def)
  have commit_body: "r_body (createCommit_request repo msg tr par token) =
          JSON_stringify (JObj [(ascii ''message'', JStr msg), (ascii ''tree'', tr),
                                (ascii ''parents'', JArr [par])])" for repo msg tr par token
    by (simp add: createCommit_request_def)
  have body: "r_body (createBlob_request repo content token) =
          JSON_stringify (JObj [(ascii ''content'', JStr content),
                                (ascii ''encoding'', JStr (ascii ''base64''))])" for repo content token
    by (simp add: createBlob_request_def)
  from a(5) have each: "\<forall>i<length (p_files params).
        encodedContent (f_content (p_files params ! i)) = Inr (encs ! i) \<and>
        decode_payload (encs ! i) = Some (f_content (p_files params ! i)) \<and>
        r_body (createBlob_request (p_repo params) (encs ! i) ?t) =
          JSON_stringify (JObj [(ascii ''content'', JStr (encs ! i)),
                                (ascii ''encoding'', JStr (ascii ''base64''))]) \<and>
        answer net (trace w @ getLatestCommitSHA_request (p_repo params) (p_branch params) ?t #
                    map (\<lambda>e. createBlob_request (p_repo params) e ?t) (take (Suc i) encs))
          [ascii ''sha''] = Inr (shas ! i)"
    using encodedContent_roundtrip body by blast
  show ?thesis
    apply (rule exI[of _ tip], rule exI[of _ encs], rule exI[of _ shas], rule exI[of _ base],
           rule exI[of _ newTree])
    using a(1,2,3,4,6,7,8) each tree_body[of "p_repo params" base "?entries shas" ?t]
      commit_body[of "p_repo params" "p_commitMsg params" newTree tip ?t]
    unfolding fileEntry_def by (intro conjI) assumption+
qed

text \<open>The run of the example returns; its two payloads decode to the two contents.\<close>

theorem tree_holds_every_file_and_commit_sha_is_returned_witness:
  "commitSolutionFiles example_remote example_stats example_params example_world =
     (Inr (JStr (ascii ''c0ffee'')), example_outcome) \<and>
   decode_payload (ascii ''IyBIaQ=='') = Some (ascii ''# Hi'') \<and>
   decode_payload (ascii ''cHJpbnQoMSk='') = Some (ascii ''print(1)'')"
proof -
  from tree_holds_every_file_and_commit_sha_is_returned[OF example_run]
  obtain encs where
    "\<forall>i<length (p_files example_params).
        encodedContent (f_content (p_files example_params ! i)) = Inr (encs ! i) \<and>
        decode_payload (encs ! i) = Some (f_content (p_files example_params ! i))"
    by blast
  then have each: "encodedContent (f_content (p_files example_params ! i)) = Inr (encs ! i) \<and>
        decode_payload (encs ! i) = Some (f_content (p_files example_params ! i))"
    if "i < length (p_files example_params)" for i
    using that by blast
  from each[of 0] each[of 1]
  have "encodedContent (ascii ''# Hi'') = Inr (encs ! 0) \<and>
        decode_payload (encs ! 0) = Some (ascii ''# Hi'')"
    "encodedContent (ascii ''print(1)'') = Inr (encs ! 1) \<and>
        decode_payload (encs ! 1) = Some (ascii ''print(1)'')"
    by (simp_all add: example_params_simps)
  then have "decode_payload (ascii ''IyBIaQ=='') = Some (ascii ''# Hi'')"
    "decode_payload (ascii ''cHJpbnQoMSk='') = Some (ascii ''print(1)'')"
    by (simp_all add: encodedContent_README encodedContent_sol)
  with example_run show ?thesis by simp
qed

end
